theory Spec2Isabelle
  imports Main "HOL-Library.Char_ord" "HOL-Library.Multiset" "HOL-Library.Word"
begin

section \<open>Regular expressions as the handlers use them\<close>

text \<open>
  The handlers of \<open>Backend/server.js\<close> validate their inputs with anchored JavaScript
  regular expressions (\<open>/^...$/.test(s)\<close>, no flags). A pattern is kept as a syntax tree
  that mirrors the pattern text; \<open>rmatch r s\<close> lists the rest of \<open>s\<close> after every way \<open>r\<close>
  can match a prefix of \<open>s\<close>, in the order a backtracking matcher tries them. A starred
  sub-pattern is not iterated on an empty match, as in ECMAScript.
\<close>

datatype 'a cls_item = Single 'a | Range 'a 'a

datatype 'a regex =
    Eps
  | Lit 'a
  | Cls "'a cls_item list"
  | Seq "'a regex" "'a regex"
  | Star "'a regex"
  | NegLookahead "'a regex"

fun in_item :: "'a::linorder cls_item \<Rightarrow> 'a \<Rightarrow> bool" where
  "in_item (Single c) x = (x = c)"
| "in_item (Range lo hi) x = (lo \<le> x \<and> x \<le> hi)"

definition in_class :: "'a::linorder cls_item list \<Rightarrow> 'a \<Rightarrow> bool" where
  "in_class items x = list_ex (\<lambda>i. in_item i x) items"

function rmatch :: "'a::linorder regex \<Rightarrow> 'a list \<Rightarrow> 'a list list" where
  "rmatch Eps s = [s]"
| "rmatch (Lit c) s = (case s of [] \<Rightarrow> [] | x # xs \<Rightarrow> if x = c then [xs] else [])"
| "rmatch (Cls items) s =
     (case s of [] \<Rightarrow> [] | x # xs \<Rightarrow> if in_class items x then [xs] else [])"
| "rmatch (Seq a b) s = concat (map (rmatch b) (rmatch a s))"
| "rmatch (Star r) s =
     concat (map (rmatch (Star r)) (filter (\<lambda>t. length t < length s) (rmatch r s))) @ [s]"
| "rmatch (NegLookahead r) s = (if rmatch r s = [] then [s] else [])"
  by pat_completeness auto
termination
  by (relation "measures [\<lambda>(r, s). size r, \<lambda>(r, s). length s]") auto

text \<open>\<open>x{n}\<close>: exactly \<open>n\<close> copies in sequence; a literal word: its characters in sequence.\<close>

fun rep :: "nat \<Rightarrow> 'a regex \<Rightarrow> 'a regex" where
  "rep 0 r = Eps"
| "rep (Suc n) r = Seq r (rep n r)"

fun lits :: "'a list \<Rightarrow> 'a regex" where
  "lits [] = Eps"
| "lits (c # cs) = Seq (Lit c) (lits cs)"

text \<open>\<open>/^r$/.test(s)\<close>: some way of matching \<open>r\<close> from the start consumes all of \<open>s\<close>.\<close>

definition regex_test :: "'a::linorder regex \<Rightarrow> 'a list \<Rightarrow> bool" where
  "regex_test r s = ([] \<in> set (rmatch r s))"

subsection \<open>The patterns of the source\<close>

text \<open>\<open>[0-9]\<close> and \<open>\\d\<close>.\<close>
definition digit :: "char regex" where
  "digit = Cls [Range CHR ''0'' CHR ''9'']"

text \<open>\<open>/^[ATS]{3}0(?!000)[0-9]{3}$/\<close>, GET /api/employees/:empId.\<close>
definition emp_id_lookup_re :: "char regex" where
  "emp_id_lookup_re =
     Seq (rep 3 (Cls [Single CHR ''A'', Single CHR ''T'', Single CHR ''S'']))
      (Seq (Lit CHR ''0'')
        (Seq (NegLookahead (lits ''000'')) (rep 3 digit)))"

text \<open>\<open>/^ATS0\\d{3}$/\<close>, the task and task-history endpoints.\<close>
definition emp_id_re :: "char regex" where
  "emp_id_re = Seq (lits ''ATS0'') (rep 3 digit)"

text \<open>\<open>/^[a-zA-Z][a-zA-Z0-9._-]*[a-zA-Z0-9]@astrolitetech\\.com$/\<close>.\<close>
definition email_re :: "char regex" where
  "email_re =
     Seq (Cls [Range CHR ''a'' CHR ''z'', Range CHR ''A'' CHR ''Z''])
      (Seq (Star (Cls [Range CHR ''a'' CHR ''z'', Range CHR ''A'' CHR ''Z'',
                       Range CHR ''0'' CHR ''9'', Single CHR ''.'', Single CHR ''_'',
                       Single CHR ''-'']))
        (Seq (Cls [Range CHR ''a'' CHR ''z'', Range CHR ''A'' CHR ''Z'',
                   Range CHR ''0'' CHR ''9''])
          (lits ''@astrolitetech.com'')))"


section \<open>JavaScript values of a request\<close>

text \<open>
  A field of \<open>req.body\<close> or \<open>req.query\<close> is a scalar JSON value, or \<open>undefined\<close> when the key
  is absent. Strings are 8-bit character lists. Numbers are the signed 32-bit integers, each
  of which a JavaScript number holds exactly and prints in plain decimal; other numbers,
  arrays and objects are not part of the model.
\<close>

datatype jsval = JUndefined | JNull | JBool bool | JNum "32 word" | JStr string

text \<open>The condition of \<open>if (v)\<close>, \<open>!v\<close> and \<open>v || d\<close>.\<close>

fun truthy :: "jsval \<Rightarrow> bool" where
  "truthy JUndefined = False"
| "truthy JNull = False"
| "truthy (JBool b) = b"
| "truthy (JNum n) = (n \<noteq> 0)"
| "truthy (JStr s) = (s \<noteq> [])"

definition js_or :: "jsval \<Rightarrow> jsval \<Rightarrow> jsval" where
  "js_or v d = (if truthy v then v else d)"

definition digit_char :: "nat \<Rightarrow> char" where
  "digit_char d = char_of (48 + d)"

function show_nat :: "nat \<Rightarrow> string" where
  "show_nat n = (if n < 10 then [digit_char n] else show_nat (n div 10) @ [digit_char (n mod 10)])"
  by pat_completeness auto
termination
  by (relation "measure id") auto

declare show_nat.simps [simp del]

definition show_int :: "int \<Rightarrow> string" where
  "show_int i = (if i < 0 then CHR ''-'' # show_nat (nat (- i)) else show_nat (nat i))"

text \<open>\<open>String(v)\<close>, which \<open>RegExp.prototype.test\<close> applies to its argument.\<close>

fun to_string :: "jsval \<Rightarrow> string" where
  "to_string JUndefined = ''undefined''"
| "to_string JNull = ''null''"
| "to_string (JBool b) = (if b then ''true'' else ''false'')"
| "to_string (JNum n) = show_int (sint n)"
| "to_string (JStr s) = s"

text \<open>
  The text the database driver sends for a query parameter: \<open>null\<close> and \<open>undefined\<close> become
  SQL NULL, every other scalar its string form.
\<close>

fun pg_text :: "jsval \<Rightarrow> string option" where
  "pg_text JUndefined = None"
| "pg_text JNull = None"
| "pg_text v = Some (to_string v)"

section \<open>The relational store\<close>

type_synonym byte = "8 word"

datatype coltype = VARCHAR nat | TEXT | DATE | TIMESTAMP | SERIAL | BYTEA

datatype colopt = PRIMARY_KEY | NOT_NULL | DEFAULT string | DEFAULT_CURRENT_TIMESTAMP

type_synonym coldef = "string \<times> coltype \<times> colopt list"

record employee =
  e_emp_id :: string
  e_name :: string
  e_email :: string
  e_department :: string

text \<open>A DATE value: a calendar day (year, month, day) or one of the two infinite dates.\<close>

datatype date = Date int nat nat | Date_infinity | Date_minus_infinity

record task =
  t_id :: string
  t_task_name :: string
  t_employee_name :: string
  t_employee_id :: string
  t_email :: string
  t_task_description :: string
  t_allocated_date :: date
  t_deadline :: date
  t_status :: string
  t_created_at :: nat

record history =
  h_id :: nat
  h_task_name :: string
  h_employee_name :: string
  h_employee_id :: string
  h_email :: string
  h_description :: string
  h_upload_doc :: "byte list option"
  h_task_status :: string
  h_allocated_time :: nat

text \<open>
  A table has the column definitions it was created with, its rows in insertion order, and
  the last value drawn from the sequence behind a SERIAL column (0 when none was drawn).
  A row holds the values of its columns as the driver hands them to the handler: text for
  the character columns, a \<open>date\<close> for a DATE column, a number for the SERIAL column.
  Timestamps are clock readings.
\<close>

record 'r table =
  columns :: "coldef list"
  rows :: "'r list"
  serial :: nat

record database =
  employees :: "employee table option"
  tasks :: "task table option"
  task_history :: "history table option"

datatype sql_error =
    ConnectionFailed | UndefinedTable | UniqueViolation | NotNullViolation
  | InvalidText | DataException | InvalidInteger | SequenceExhausted

text \<open>
  Which texts the storage engine reads as a DATE and which as an INTEGER depends on its
  version and settings; both input functions are taken as given.
\<close>

record engine =
  date_in :: "string \<Rightarrow> date option"
  int4_in :: "string \<Rightarrow> int option"

text \<open>
  A text parameter must be free of the zero character. A value for VARCHAR(n) longer than
  \<open>n\<close> is refused, unless only spaces are beyond \<open>n\<close>: then it is cut to \<open>n\<close>.
\<close>

definition text_in :: "string \<Rightarrow> string option" where
  "text_in s = (if CHR 0x00 \<in> set s then None else Some s)"

definition varchar_in :: "nat \<Rightarrow> string \<Rightarrow> string option" where
  "varchar_in n s =
     (if CHR 0x00 \<in> set s then None
      else if length s \<le> n then Some s
      else if list_all (\<lambda>c. c = CHR '' '') (drop n s) then Some (take n s)
      else None)"

text \<open>
  A parameter of a statement is NULL or a text. The store reads a text into the type of
  its column before the statement runs, and refuses the statement when it cannot;
  \<open>stored\<close> is the value of a parameter that is not NULL and was read.
\<close>

definition refused :: "(string \<Rightarrow> 'a option) \<Rightarrow> string option \<Rightarrow> bool" where
  "refused f p = (case p of None \<Rightarrow> False | Some s \<Rightarrow> f s = None)"

definition stored :: "(string \<Rightarrow> 'a option) \<Rightarrow> string option \<Rightarrow> 'a" where
  "stored f p = the (f (the p))"

definition date_param :: "engine \<Rightarrow> string \<Rightarrow> date option" where
  "date_param e s = Option.bind (text_in s) (date_in e)"

subsection \<open>Schemas\<close>

text \<open>The three \<open>CREATE TABLE IF NOT EXISTS\<close> statements of the first server.\<close>

definition employees_columns :: "coldef list" where
  "employees_columns =
    [(''emp_id'', VARCHAR 7, [PRIMARY_KEY]),
     (''name'', VARCHAR 100, [NOT_NULL]),
     (''email'', VARCHAR 100, [NOT_NULL]),
     (''department'', VARCHAR 100, [NOT_NULL])]"

definition tasks_columns :: "coldef list" where
  "tasks_columns =
    [(''id'', VARCHAR 255, [PRIMARY_KEY]),
     (''task_name'', VARCHAR 100, [NOT_NULL]),
     (''employee_name'', VARCHAR 100, [NOT_NULL]),
     (''employee_id'', VARCHAR 7, [NOT_NULL]),
     (''email'', VARCHAR 100, [NOT_NULL]),
     (''task_description'', TEXT, [NOT_NULL]),
     (''allocated_date'', DATE, [NOT_NULL]),
     (''deadline'', DATE, [NOT_NULL]),
     (''status'', VARCHAR 20, [NOT_NULL, DEFAULT ''assigned'']),
     (''created_at'', TIMESTAMP, [NOT_NULL, DEFAULT_CURRENT_TIMESTAMP])]"

definition task_history_columns :: "coldef list" where
  "task_history_columns =
    [(''id'', SERIAL, [PRIMARY_KEY]),
     (''task_name'', VARCHAR 100, [NOT_NULL]),
     (''employee_name'', VARCHAR 100, [NOT_NULL]),
     (''employee_id'', VARCHAR 7, [NOT_NULL]),
     (''email'', VARCHAR 100, [NOT_NULL]),
     (''description'', TEXT, [NOT_NULL]),
     (''upload_doc'', BYTEA, []),
     (''task_status'', VARCHAR 20, [NOT_NULL]),
     (''allocated_time'', TIMESTAMP, [NOT_NULL, DEFAULT_CURRENT_TIMESTAMP])]"

text \<open>The two tables of the second server.\<close>

definition tasks_columns_v2 :: "coldef list" where
  "tasks_columns_v2 =
    [(''id'', VARCHAR 255, [PRIMARY_KEY]),
     (''task_name'', VARCHAR 25, [NOT_NULL]),
     (''employee_name'', VARCHAR 30, [NOT_NULL]),
     (''employee_id'', VARCHAR 7, [NOT_NULL]),
     (''task_description'', VARCHAR 60, [NOT_NULL]),
     (''allocated_date'', DATE, [NOT_NULL]),
     (''deadline'', DATE, [NOT_NULL]),
     (''status'', VARCHAR 20, [NOT_NULL, DEFAULT ''assigned'']),
     (''created_at'', TIMESTAMP, [NOT_NULL, DEFAULT_CURRENT_TIMESTAMP])]"

definition task_history_columns_v2 :: "coldef list" where
  "task_history_columns_v2 =
    [(''id'', SERIAL, [PRIMARY_KEY]),
     (''task_name'', VARCHAR 100, [NOT_NULL]),
     (''employee_name'', VARCHAR 100, [NOT_NULL]),
     (''employee_id'', VARCHAR 7, [NOT_NULL]),
     (''upload_doc'', BYTEA, []),
     (''task_status'', VARCHAR 20, [NOT_NULL]),
     (''allocated_time'', TIMESTAMP, [NOT_NULL, DEFAULT_CURRENT_TIMESTAMP])]"

text \<open>\<open>CREATE TABLE IF NOT EXISTS\<close> leaves an existing table as it is, whatever its columns;
  \<open>DROP TABLE IF EXISTS\<close> removes the table with its rows and its sequence.\<close>

definition create_table_if_not_exists :: "coldef list \<Rightarrow> 'r table option \<Rightarrow> 'r table option" where
  "create_table_if_not_exists cols t =
     (case t of None \<Rightarrow> Some \<lparr>columns = cols, rows = [], serial = 0\<rparr> | Some x \<Rightarrow> Some x)"

definition drop_table_if_exists :: "'r table option \<Rightarrow> 'r table option" where
  "drop_table_if_exists t = None"

text \<open>The multi-statement query of \<open>initializeDatabase\<close> in the first server.\<close>

definition create_tables :: "database \<Rightarrow> database" where
  "create_tables db =
     db\<lparr>employees := create_table_if_not_exists employees_columns (employees db),
        tasks := create_table_if_not_exists tasks_columns (tasks db),
        task_history := create_table_if_not_exists task_history_columns (task_history db)\<rparr>"

text \<open>The multi-statement query of \<open>initializeDatabase\<close> in the second server: both task
  tables are dropped before they are created.\<close>

definition create_tables_v2 :: "database \<Rightarrow> database" where
  "create_tables_v2 db =
     db\<lparr>tasks := create_table_if_not_exists tasks_columns_v2 (drop_table_if_exists (tasks db)),
        task_history :=
          create_table_if_not_exists task_history_columns_v2
            (drop_table_if_exists (task_history db))\<rparr>"

text \<open>A query reaches the store only when the connection is up.\<close>

definition pool_query :: "bool \<Rightarrow> (database \<Rightarrow> database) \<Rightarrow> database \<Rightarrow> sql_error + database" where
  "pool_query up q db = (if up then Inr (q db) else Inl ConnectionFailed)"


subsection \<open>The queries of the handlers\<close>

text \<open>\<open>ORDER BY key DESC\<close>: an insertion sort, so rows with equal keys keep their order
  (the storage engine leaves the order of such rows open).\<close>

fun insert_desc :: "('r \<Rightarrow> nat) \<Rightarrow> 'r \<Rightarrow> 'r list \<Rightarrow> 'r list" where
  "insert_desc k x [] = [x]"
| "insert_desc k x (y # ys) = (if k y \<le> k x then x # y # ys else y # insert_desc k x ys)"

definition order_by_desc :: "('r \<Rightarrow> nat) \<Rightarrow> 'r list \<Rightarrow> 'r list" where
  "order_by_desc k xs = foldr (insert_desc k) xs []"

text \<open>\<open>SELECT * FROM employees WHERE emp_id = $1\<close>\<close>
definition select_employee :: "string option \<Rightarrow> database \<Rightarrow> sql_error + employee list" where
  "select_employee p db =
     (case employees db of
        None \<Rightarrow> Inl UndefinedTable
      | Some t \<Rightarrow> Inr (filter (\<lambda>r. Some (e_emp_id r) = p) (rows t)))"

text \<open>\<open>SELECT * FROM tasks ORDER BY created_at DESC\<close> when \<open>params\<close> is empty,
  \<open>SELECT * FROM tasks WHERE employee_id = $1 ORDER BY created_at DESC\<close> when it holds the
  filter.\<close>
definition select_tasks :: "jsval list \<Rightarrow> database \<Rightarrow> sql_error + task list" where
  "select_tasks params db =
     (case tasks db of
        None \<Rightarrow> Inl UndefinedTable
      | Some t \<Rightarrow>
          (case params of
             [] \<Rightarrow> Inr (order_by_desc t_created_at (rows t))
           | p # _ \<Rightarrow>
               Inr (order_by_desc t_created_at
                      (filter (\<lambda>r. Some (t_employee_id r) = pg_text p) (rows t)))))"


text \<open>\<open>INSERT INTO tasks (id, task_name, employee_name, employee_id, email, task_description,
  allocated_date, deadline, status, created_at) VALUES ($1, ..., $9, CURRENT_TIMESTAMP)
  RETURNING *\<close>. The columns are \<open>id\<close> VARCHAR(255), \<open>task_name\<close> and \<open>employee_name\<close>
  VARCHAR(100), \<open>employee_id\<close> VARCHAR(7), \<open>email\<close> VARCHAR(100), \<open>task_description\<close> TEXT,
  \<open>allocated_date\<close> and \<open>deadline\<close> DATE, \<open>status\<close> VARCHAR(20); every column is NOT NULL
  and \<open>id\<close> is the primary key.\<close>
definition insert_task ::
  "engine \<Rightarrow> string option \<Rightarrow> string option \<Rightarrow> string option \<Rightarrow> string option \<Rightarrow>
   string option \<Rightarrow> string option \<Rightarrow> string option \<Rightarrow> string option \<Rightarrow> string option \<Rightarrow>
   nat \<Rightarrow> database \<Rightarrow> sql_error + task \<times> database" where
  "insert_task e p1 p2 p3 p4 p5 p6 p7 p8 p9 current_timestamp db =
     (case tasks db of
        None \<Rightarrow> Inl UndefinedTable
      | Some t \<Rightarrow>
          if refused (varchar_in 255) p1 \<or> refused (varchar_in 100) p2 \<or>
             refused (varchar_in 100) p3 \<or> refused (varchar_in 7) p4 \<or>
             refused (varchar_in 100) p5 \<or> refused text_in p6 \<or>
             refused (date_param e) p7 \<or> refused (date_param e) p8 \<or>
             refused (varchar_in 20) p9 then Inl DataException
          else if None \<in> set [p1, p2, p3, p4, p5, p6, p7, p8, p9] then Inl NotNullViolation
          else
            let r = \<lparr>t_id = stored (varchar_in 255) p1,
                     t_task_name = stored (varchar_in 100) p2,
                     t_employee_name = stored (varchar_in 100) p3,
                     t_employee_id = stored (varchar_in 7) p4,
                     t_email = stored (varchar_in 100) p5,
                     t_task_description = stored text_in p6,
                     t_allocated_date = stored (date_param e) p7,
                     t_deadline = stored (date_param e) p8,
                     t_status = stored (varchar_in 20) p9,
                     t_created_at = current_timestamp\<rparr> in
            if t_id r \<in> set (map t_id (rows t)) then Inl UniqueViolation
            else Inr (r, db\<lparr>tasks := Some (t\<lparr>rows := rows t @ [r]\<rparr>)\<rparr>))"

text \<open>The columns the task-history queries return: every column but the document, and
  \<open>upload_doc IS NOT NULL AS has_file\<close>.\<close>

record history_meta =
  m_id :: nat
  m_task_name :: string
  m_employee_name :: string
  m_employee_id :: string
  m_email :: string
  m_description :: string
  m_task_status :: string
  m_allocated_time :: nat
  m_has_file :: bool

definition meta_of :: "history \<Rightarrow> history_meta" where
  "meta_of r =
     \<lparr>m_id = h_id r, m_task_name = h_task_name r, m_employee_name = h_employee_name r,
      m_employee_id = h_employee_id r, m_email = h_email r, m_description = h_description r,
      m_task_status = h_task_status r, m_allocated_time = h_allocated_time r,
      m_has_file = (h_upload_doc r \<noteq> None)\<rparr>"

text \<open>\<open>SELECT ..., upload_doc IS NOT NULL AS has_file FROM task_history
  [WHERE employee_id = $1] ORDER BY allocated_time DESC\<close>\<close>
definition select_history :: "jsval list \<Rightarrow> database \<Rightarrow> sql_error + history_meta list" where
  "select_history params db =
     (case task_history db of
        None \<Rightarrow> Inl UndefinedTable
      | Some t \<Rightarrow>
          (case params of
             [] \<Rightarrow> Inr (map meta_of (order_by_desc h_allocated_time (rows t)))
           | p # _ \<Rightarrow>
               Inr (map meta_of
                      (order_by_desc h_allocated_time
                         (filter (\<lambda>r. Some (h_employee_id r) = pg_text p) (rows t))))))"

text \<open>\<open>SELECT upload_doc, task_name FROM task_history WHERE id = $1\<close> and the metadata
  query of GET /api/task-history/:id select the same rows; the handlers read the columns
  they asked for. The parameter is the text of the path segment, read as an INTEGER.\<close>
definition select_history_by_id ::
  "engine \<Rightarrow> string \<Rightarrow> database \<Rightarrow> sql_error + history list" where
  "select_history_by_id e p db =
     (case task_history db of
        None \<Rightarrow> Inl UndefinedTable
      | Some t \<Rightarrow>
          (case text_in p of
             None \<Rightarrow> Inl InvalidText
           | Some s \<Rightarrow>
               (case int4_in e s of
                  None \<Rightarrow> Inl InvalidInteger
                | Some n \<Rightarrow> Inr (filter (\<lambda>r. int (h_id r) = n) (rows t)))))"

text \<open>\<open>INSERT INTO task_history (task_name, employee_name, employee_id, email, description,
  upload_doc, task_status, allocated_time) VALUES ($1, ..., $7, CURRENT_TIMESTAMP)
  RETURNING ...\<close>. The columns are \<open>task_name\<close> and \<open>employee_name\<close> VARCHAR(100),
  \<open>employee_id\<close> VARCHAR(7), \<open>email\<close> VARCHAR(100), \<open>description\<close> TEXT, \<open>upload_doc\<close>
  BYTEA and \<open>task_status\<close> VARCHAR(20); all but \<open>upload_doc\<close> are NOT NULL. The \<open>id\<close> is
  the next value of the table's sequence, which ends at 2147483647 and stays drawn when the
  insertion fails afterwards.\<close>
definition insert_history ::
  "string option \<Rightarrow> string option \<Rightarrow> string option \<Rightarrow> string option \<Rightarrow> string option \<Rightarrow>
   byte list option \<Rightarrow> string option \<Rightarrow> nat \<Rightarrow> database \<Rightarrow>
   (sql_error + history_meta) \<times> database" where
  "insert_history p1 p2 p3 p4 p5 p6 p7 current_timestamp db =
     (case task_history db of
        None \<Rightarrow> (Inl UndefinedTable, db)
      | Some t \<Rightarrow>
          if refused (varchar_in 100) p1 \<or> refused (varchar_in 100) p2 \<or>
             refused (varchar_in 7) p3 \<or> refused (varchar_in 100) p4 \<or>
             refused text_in p5 \<or> refused (varchar_in 20) p7 then (Inl DataException, db)
          else if 2147483647 \<le> serial t then (Inl SequenceExhausted, db)
          else
            let i = Suc (serial t); t' = t\<lparr>serial := i\<rparr> in
            if None \<in> set [p1, p2, p3, p4, p5, p7] then
              (Inl NotNullViolation, db\<lparr>task_history := Some t'\<rparr>)
            else if i \<in> set (map h_id (rows t)) then
              (Inl UniqueViolation, db\<lparr>task_history := Some t'\<rparr>)
            else
              let r = \<lparr>h_id = i,
                       h_task_name = stored (varchar_in 100) p1,
                       h_employee_name = stored (varchar_in 100) p2,
                       h_employee_id = stored (varchar_in 7) p3,
                       h_email = stored (varchar_in 100) p4,
                       h_description = stored text_in p5,
                       h_upload_doc = p6,
                       h_task_status = stored (varchar_in 20) p7,
                       h_allocated_time = current_timestamp\<rparr> in
              (Inr (meta_of r), db\<lparr>task_history := Some (t'\<lparr>rows := rows t @ [r]\<rparr>)\<rparr>))"


section \<open>The content-type sniff of GET /api/task-history/:id/file\<close>

text \<open>
  \<open>fileBuffer.slice(0, 100).toString()\<close> decodes the bytes as UTF-8 into a string of UTF-16
  code units. The decoder is the usual state machine: \<open>needed\<close> continuation bytes are still
  expected for the code point \<open>cp\<close>, the next of them within \<open>lo..hi\<close>; a byte that cannot
  continue or start a sequence yields U+FFFD, and a byte that ends a sequence early is read
  again as a first byte.
\<close>

unbundle bit_operations_syntax

function utf8_decode :: "nat \<Rightarrow> nat \<Rightarrow> byte \<Rightarrow> byte \<Rightarrow> byte list \<Rightarrow> nat list" where
  "utf8_decode cp needed lo hi [] = (if needed = 0 then [] else [0xFFFD])"
| "utf8_decode cp needed lo hi (b # bs) =
     (if needed = 0 then
        (if b \<le> 0x7F then unat b # utf8_decode 0 0 0x80 0xBF bs
         else if 0xC2 \<le> b \<and> b \<le> 0xDF then
           utf8_decode (unat (b AND 0x1F)) 1 0x80 0xBF bs
         else if 0xE0 \<le> b \<and> b \<le> 0xEF then
           utf8_decode (unat (b AND 0x0F)) 2
             (if b = 0xE0 then 0xA0 else 0x80) (if b = 0xED then 0x9F else 0xBF) bs
         else if 0xF0 \<le> b \<and> b \<le> 0xF4 then
           utf8_decode (unat (b AND 0x07)) 3
             (if b = 0xF0 then 0x90 else 0x80) (if b = 0xF4 then 0x8F else 0xBF) bs
         else 0xFFFD # utf8_decode 0 0 0x80 0xBF bs)
      else if lo \<le> b \<and> b \<le> hi then
        (let cp' = cp * 64 + unat (b AND 0x3F) in
         if needed = 1 then cp' # utf8_decode 0 0 0x80 0xBF bs
         else utf8_decode cp' (needed - 1) 0x80 0xBF bs)
      else 0xFFFD # utf8_decode 0 0 0x80 0xBF (b # bs))"
  by pat_completeness auto
termination
  by (relation "measure (\<lambda>(cp, needed, lo, hi, bs). 2 * length bs + (if needed = 0 then 0 else 1))")
     auto

text \<open>A code point as UTF-16: itself, or a surrogate pair above the basic plane.\<close>

definition utf16_units :: "nat \<Rightarrow> nat list" where
  "utf16_units cp =
     (if cp < 0x10000 then [cp]
      else [0xD800 + (cp - 0x10000) div 0x400, 0xDC00 + (cp - 0x10000) mod 0x400])"

definition toString :: "byte list \<Rightarrow> nat list" where
  "toString buf = concat (map utf16_units (utf8_decode 0 0 0x80 0xBF buf))"

text \<open>\<open>/^[\\x00-\\x7F]*$/\<close>, over code units.\<close>
definition ascii_re :: "nat regex" where
  "ascii_re = Star (Cls [Range 0x00 0x7F])"

definition sniff :: "byte list \<Rightarrow> string" where
  "sniff fileBuffer =
     (if length fileBuffer > 4 then
        (if fileBuffer ! 0 = 0x25 \<and> fileBuffer ! 1 = 0x50 \<and> fileBuffer ! 2 = 0x44 \<and>
            fileBuffer ! 3 = 0x46 then ''application/pdf''
         else if fileBuffer ! 0 = 0x89 \<and> fileBuffer ! 1 = 0x50 \<and> fileBuffer ! 2 = 0x4E \<and>
            fileBuffer ! 3 = 0x47 then ''image/png''
         else if fileBuffer ! 0 = 0xFF \<and> fileBuffer ! 1 = 0xD8 \<and> fileBuffer ! 2 = 0xFF
           then ''image/jpeg''
         else if regex_test ascii_re (toString (take 100 fileBuffer)) then ''text/plain''
         else ''application/octet-stream'')
      else ''application/octet-stream'')"

text \<open>
  The algorithm as the specification words it, for comparison: only the first step asks
  for more than four bytes, and a prefix is compared as far as the blob reaches.
\<close>

definition sniff_spec :: "byte list \<Rightarrow> string" where
  "sniff_spec blob =
     (if length blob > 4 \<and> take 4 blob = [0x25, 0x50, 0x44, 0x46] then ''application/pdf''
      else if take 4 blob = [0x89, 0x50, 0x4E, 0x47] then ''image/png''
      else if take 3 blob = [0xFF, 0xD8, 0xFF] then ''image/jpeg''
      else if list_all (\<lambda>b. b \<le> 0x7F) (take 100 blob) then ''text/plain''
      else ''application/octet-stream'')"

section \<open>The request handlers of the first server\<close>

datatype payload =
    Error string
  | Employee employee
  | Task task
  | Tasks "task list"
  | Histories "history_meta list"
  | History history_meta
  | Saved history_meta
  | File string "byte list"
  | Error_page

record response =
  status_code :: nat
  body :: payload

definition respond :: "nat \<Rightarrow> payload \<Rightarrow> response" where
  "respond c b = \<lparr>status_code = c, body = b\<rparr>"

text \<open>GET /api/employees/:empId\<close>
definition get_employee :: "string \<Rightarrow> database \<Rightarrow> response" where
  "get_employee empId db =
     (if \<not> regex_test emp_id_lookup_re empId then
        respond 400 (Error ''Invalid employee ID format'')
      else
        (case select_employee (Some empId) db of
           Inl err \<Rightarrow> respond 500 (Error ''Failed to fetch employee'')
         | Inr [] \<Rightarrow> respond 404 (Error ''Employee not found'')
         | Inr (r # _) \<Rightarrow> respond 200 (Employee r)))"

text \<open>GET /api/tasks and GET /api/task-history first settle \<open>params\<close>: no parameter
  without a filter, the filter when it passes, or the early 400.\<close>
definition filter_params :: "jsval \<Rightarrow> response + jsval list" where
  "filter_params employeeId =
     (if truthy employeeId then
        (if \<not> regex_test emp_id_re (to_string employeeId) then
           Inl (respond 400 (Error ''Invalid employee ID format''))
         else Inr [employeeId])
      else Inr [])"

text \<open>GET /api/tasks\<close>
definition get_tasks :: "jsval \<Rightarrow> database \<Rightarrow> response" where
  "get_tasks employeeId db =
     (case filter_params employeeId of
        Inl r \<Rightarrow> r
      | Inr params \<Rightarrow>
          (case select_tasks params db of
             Inl err \<Rightarrow> respond 500 (Error ''Failed to fetch tasks'')
           | Inr rs \<Rightarrow> respond 200 (Tasks rs)))"


text \<open>GET /api/task-history\<close>
definition get_task_history :: "jsval \<Rightarrow> database \<Rightarrow> response" where
  "get_task_history employeeId db =
     (case filter_params employeeId of
        Inl r \<Rightarrow> r
      | Inr params \<Rightarrow>
          (case select_history params db of
             Inl err \<Rightarrow> respond 500 (Error ''Failed to fetch task history'')
           | Inr rs \<Rightarrow> respond 200 (Histories rs)))"

text \<open>GET /api/task-history/:id/file; the path segment goes to the query as it is. A
  stored document is a buffer, which is truthy even when empty.\<close>
definition get_task_history_file :: "engine \<Rightarrow> string \<Rightarrow> database \<Rightarrow> response" where
  "get_task_history_file e ident db =
     (case select_history_by_id e ident db of
        Inl err \<Rightarrow> respond 500 (Error ''Failed to retrieve file'')
      | Inr [] \<Rightarrow> respond 404 (Error ''File not found'')
      | Inr (r # _) \<Rightarrow>
          (case h_upload_doc r of
             None \<Rightarrow> respond 404 (Error ''File not found'')
           | Some fileBuffer \<Rightarrow> respond 200 (File (sniff fileBuffer) fileBuffer)))"

text \<open>GET /api/task-history/:id\<close>
definition get_task_history_one :: "engine \<Rightarrow> string \<Rightarrow> database \<Rightarrow> response" where
  "get_task_history_one e ident db =
     (case select_history_by_id e ident db of
        Inl err \<Rightarrow> respond 500 (Error ''Failed to fetch task history'')
      | Inr [] \<Rightarrow> respond 404 (Error ''Task history not found'')
      | Inr (r # _) \<Rightarrow> respond 200 (History (meta_of r)))"

text \<open>The keys the two POST handlers read from \<open>req.body\<close>.\<close>

record req_body =
  taskName :: jsval
  employeeName :: jsval
  employeeId :: jsval
  email :: jsval
  taskDescription :: jsval
  allocatedDate :: jsval
  deadline :: jsval
  status :: jsval
  description :: jsval
  taskStatus :: jsval

text \<open>POST /api/tasks; \<open>now\<close> is \<open>Date.now()\<close> and \<open>current_timestamp\<close> the store's clock.\<close>
definition post_tasks ::
  "engine \<Rightarrow> req_body \<Rightarrow> nat \<Rightarrow> nat \<Rightarrow> database \<Rightarrow> response \<times> database" where
  "post_tasks e b now current_timestamp db =
     (if \<not> truthy (taskName b) \<or> \<not> truthy (employeeName b) \<or> \<not> truthy (employeeId b) \<or>
         \<not> truthy (email b) \<or> \<not> truthy (taskDescription b) \<or> \<not> truthy (allocatedDate b) \<or>
         \<not> truthy (deadline b) then
        (respond 400 (Error ''All fields are required''), db)
      else if \<not> regex_test email_re (to_string (email b)) then
        (respond 400 (Error ''Invalid email format. Must be name@astrolitetech.com''), db)
      else if \<not> regex_test emp_id_re (to_string (employeeId b)) then
        (respond 400 (Error ''Invalid employee ID format''), db)
      else
        (case insert_task e (Some (show_nat now)) (pg_text (taskName b))
                (pg_text (employeeName b)) (pg_text (employeeId b)) (pg_text (email b))
                (pg_text (taskDescription b)) (pg_text (allocatedDate b))
                (pg_text (deadline b)) (pg_text (js_or (status b) (JStr ''assigned'')))
                current_timestamp db of
           Inl err \<Rightarrow> (respond 500 (Error ''Failed to save task''), db)
         | Inr (r, db') \<Rightarrow> (respond 200 (Task r), db')))"

text \<open>The handler of POST /api/task-history, which runs once the upload middleware has
  passed the request on: \<open>file\<close> is \<open>req.file.buffer\<close> when a document came with the form.\<close>
definition post_task_history ::
  "req_body \<Rightarrow> byte list option \<Rightarrow> nat \<Rightarrow> database \<Rightarrow> response \<times> database" where
  "post_task_history b file current_timestamp db =
     (let fileBuffer = file in
      if \<not> truthy (taskName b) \<or> \<not> truthy (employeeName b) \<or> \<not> truthy (employeeId b) \<or>
         \<not> truthy (email b) \<or> \<not> truthy (description b) \<or> \<not> truthy (taskStatus b) then
        (respond 400 (Error ''All fields are required''), db)
      else if \<not> regex_test email_re (to_string (email b)) then
        (respond 400 (Error ''Invalid email format''), db)
      else if \<not> regex_test emp_id_re (to_string (employeeId b)) then
        (respond 400 (Error ''Invalid employee ID format''), db)
      else
        (case insert_history (pg_text (taskName b)) (pg_text (employeeName b))
                (pg_text (employeeId b)) (pg_text (email b)) (pg_text (description b))
                fileBuffer (pg_text (taskStatus b)) current_timestamp db of
           (Inl err, db') \<Rightarrow> (respond 500 (Error ''Failed to save task history''), db')
         | (Inr m, db') \<Rightarrow> (respond 200 (Saved m), db')))"

text \<open>
  \<open>upload.single('uploadDoc')\<close> runs before that handler. A file part in another field,
  of a type outside the list, or of more than \<open>5 * 1024 * 1024\<close> bytes makes it pass an
  error on instead of the request.
\<close>

record upload =
  fieldname :: string
  mimetype :: string
  buffer :: "byte list"

datatype upload_error = LIMIT_UNEXPECTED_FILE | Invalid_file_type | LIMIT_FILE_SIZE

definition allowedTypes :: "string list" where
  "allowedTypes =
     [''application/pdf'', ''application/msword'',
      ''application/vnd.openxmlformats-officedocument.wordprocessingml.document'',
      ''image/jpeg'', ''image/png'', ''text/plain'']"

definition upload_single :: "upload option \<Rightarrow> upload_error + byte list option" where
  "upload_single part =
     (case part of
        None \<Rightarrow> Inr None
      | Some f \<Rightarrow>
          if fieldname f \<noteq> ''uploadDoc'' then Inl LIMIT_UNEXPECTED_FILE
          else if mimetype f \<notin> set allowedTypes then Inl Invalid_file_type
          else if 5 * 1024 * 1024 < length (buffer f) then Inl LIMIT_FILE_SIZE
          else Inr (Some (buffer f)))"

text \<open>
  The error-handling middleware of the application is registered before the routes, so an
  error passed on by a route reaches the framework's own handler, which answers 500 with
  an error page.
\<close>

definition default_error_handler :: response where
  "default_error_handler = respond 500 Error_page"

text \<open>POST /api/task-history as routed: the upload middleware, then the handler.\<close>
definition post_task_history_route ::
  "req_body \<Rightarrow> upload option \<Rightarrow> nat \<Rightarrow> database \<Rightarrow> response \<times> database" where
  "post_task_history_route b part current_timestamp db =
     (case upload_single part of
        Inl err \<Rightarrow> (default_error_handler, db)
      | Inr file \<Rightarrow> post_task_history b file current_timestamp db)"

section \<open>Start-up\<close>

text \<open>
  What the process does at start-up, in order: a schema query (numbered by attempt), a
  pause of so many milliseconds, \<open>app.listen\<close>, \<open>process.exit\<close>. Whether the store can be
  reached at an attempt is given by \<open>up\<close>.
\<close>

datatype event = Attempt nat | Sleep nat | Listen | Exit nat

datatype startup_error = Failed_to_connect

text \<open>The \<open>for\<close> loop of \<open>initializeDatabase(retries = 5, delay = 5000)\<close>, from \<open>attempt\<close> on.\<close>

function init_loop ::
  "nat \<Rightarrow> nat \<Rightarrow> (nat \<Rightarrow> bool) \<Rightarrow> nat \<Rightarrow> database \<Rightarrow> event list \<times> (startup_error + database)" where
  "init_loop retries delay up attempt db =
     (if attempt \<le> retries then
        (case pool_query (up attempt) create_tables db of
           Inr db' \<Rightarrow> ([Attempt attempt], Inr db')
         | Inl err \<Rightarrow>
             if attempt < retries then
               (let (evs, r) = init_loop retries delay up (attempt + 1) db
                in (Attempt attempt # Sleep delay # evs, r))
             else ([Attempt attempt], Inl Failed_to_connect))
      else ([], Inr db))"
  by pat_completeness auto
termination
  by (relation "measure (\<lambda>(retries, delay, up, attempt, db). Suc retries - attempt)") auto

declare init_loop.simps [simp del]

definition initializeDatabase ::
  "nat \<Rightarrow> nat \<Rightarrow> (nat \<Rightarrow> bool) \<Rightarrow> database \<Rightarrow> event list \<times> (startup_error + database)" where
  "initializeDatabase retries delay up db = init_loop retries delay up 1 db"

datatype process = Listening database | Exited nat

definition startServer :: "(nat \<Rightarrow> bool) \<Rightarrow> database \<Rightarrow> event list \<times> process" where
  "startServer up db =
     (case initializeDatabase 5 5000 up db of
        (evs, Inr db') \<Rightarrow> (evs @ [Listen], Listening db')
      | (evs, Inl err) \<Rightarrow> (evs @ [Exit 1], Exited 1))"

text \<open>The second server makes one attempt and rethrows its error.\<close>

definition initializeDatabase_v2 :: "bool \<Rightarrow> database \<Rightarrow> sql_error + database" where
  "initializeDatabase_v2 up db = pool_query up create_tables_v2 db"

definition startServer_v2 :: "bool \<Rightarrow> database \<Rightarrow> event list \<times> process" where
  "startServer_v2 up db =
     (case initializeDatabase_v2 up db of
        Inr db' \<Rightarrow> ([Attempt 1, Listen], Listening db')
      | Inl err \<Rightarrow> ([Attempt 1, Exit 1], Exited 1))"


section \<open>Vocabulary of the claims\<close>

text \<open>Character classes: \<open>[0-9]\<close>, \<open>[a-zA-Z]\<close>, \<open>[a-zA-Z0-9]\<close> and \<open>[a-zA-Z0-9._-]\<close>.\<close>

definition is_digit :: "char \<Rightarrow> bool" where
  "is_digit c = (CHR ''0'' \<le> c \<and> c \<le> CHR ''9'')"

definition is_letter :: "char \<Rightarrow> bool" where
  "is_letter c = ((CHR ''a'' \<le> c \<and> c \<le> CHR ''z'') \<or> (CHR ''A'' \<le> c \<and> c \<le> CHR ''Z''))"

definition is_alnum :: "char \<Rightarrow> bool" where
  "is_alnum c = (is_letter c \<or> is_digit c)"

definition is_local_char :: "char \<Rightarrow> bool" where
  "is_local_char c = (is_alnum c \<or> c = CHR ''.'' \<or> c = CHR ''_'' \<or> c = CHR ''-'')"


text \<open>
  The e-mail rule as the specification words it, for comparison: the part before
  \<open>@astrolitetech.com\<close> starts and ends with an alphanumeric character and has only
  alphanumerics, \<open>.\<close>, \<open>_\<close> and \<open>-\<close> in between.
\<close>

definition isValidCompanyEmail_spec :: "string \<Rightarrow> bool" where
  "isValidCompanyEmail_spec e =
     (let n = length e - length ''@astrolitetech.com''; local = take n e in
      drop n e = ''@astrolitetech.com'' \<and> local \<noteq> [] \<and> is_alnum (hd local) \<and>
      is_alnum (last local) \<and> list_all is_local_char (butlast (tl local)))"

text \<open>The first check of each POST handler, and all three checks together.\<close>

definition tasks_fields_present :: "req_body \<Rightarrow> bool" where
  "tasks_fields_present b =
     (truthy (taskName b) \<and> truthy (employeeName b) \<and> truthy (employeeId b) \<and>
      truthy (email b) \<and> truthy (taskDescription b) \<and> truthy (allocatedDate b) \<and>
      truthy (deadline b))"

definition history_fields_present :: "req_body \<Rightarrow> bool" where
  "history_fields_present b =
     (truthy (taskName b) \<and> truthy (employeeName b) \<and> truthy (employeeId b) \<and>
      truthy (email b) \<and> truthy (description b) \<and> truthy (taskStatus b))"

definition tasks_payload_ok :: "req_body \<Rightarrow> bool" where
  "tasks_payload_ok b =
     (tasks_fields_present b \<and> regex_test email_re (to_string (email b)) \<and>
      regex_test emp_id_re (to_string (employeeId b)))"

definition history_payload_ok :: "req_body \<Rightarrow> bool" where
  "history_payload_ok b =
     (history_fields_present b \<and> regex_test email_re (to_string (email b)) \<and>
      regex_test emp_id_re (to_string (employeeId b)))"

text \<open>\<open>ORDER BY key DESC\<close> as a property of the result.\<close>

definition sorted_desc :: "('r \<Rightarrow> nat) \<Rightarrow> 'r list \<Rightarrow> bool" where
  "sorted_desc k rs = sorted_wrt (\<lambda>a b. k b \<le> k a) rs"

text \<open>A store before any initialisation, and sample data for concrete instances.\<close>

definition empty_database :: database where
  "empty_database = \<lparr>employees = None, tasks = None, task_history = None\<rparr>"

definition example_body :: req_body where
  "example_body =
     \<lparr>taskName = JStr ''Audit'', employeeName = JStr ''Asha'', employeeId = JStr ''ATS0123'',
      email = JStr ''asha.k@astrolitetech.com'', taskDescription = JStr ''Quarterly audit'',
      allocatedDate = JStr ''2024-01-15'', deadline = JStr ''2024-02-01'',
      status = JUndefined, description = JStr ''Done'', taskStatus = JStr ''completed''\<rparr>"

definition example_task :: task where
  "example_task =
     \<lparr>t_id = ''41'', t_task_name = ''Audit'', t_employee_name = ''Asha'',
      t_employee_id = ''ATS0123'', t_email = ''asha.k@astrolitetech.com'',
      t_task_description = ''Quarterly audit'', t_allocated_date = Date 2024 1 15,
      t_deadline = Date 2024 2 1, t_status = ''assigned'', t_created_at = 3\<rparr>"

definition example_task2 :: task where
  "example_task2 =
     example_task\<lparr>t_id := ''40'', t_employee_id := ''ATS0456'', t_created_at := 9\<rparr>"

text \<open>The state of the decoder from which no all-ASCII output can follow: the code point
  under construction will reach at least U+0080.\<close>

definition non_ascii_ok :: "nat \<Rightarrow> nat \<Rightarrow> byte \<Rightarrow> byte \<Rightarrow> bool" where
  "non_ascii_ok cp needed lo hi =
     (0x80 \<le> lo \<and> hi \<le> 0xBF \<and> 128 \<le> (cp * 64 + unat (lo AND 0x3F)) * 64 ^ (needed - 1))"

abbreviation (input) ascii_units :: "nat list \<Rightarrow> bool" where
  "ascii_units us \<equiv> list_all (\<lambda>u. u \<le> 0x7F) us"

text \<open>Whether the store reads every parameter of the INSERT of POST /api/tasks into its
  column, and the row it then builds; the same for POST /api/task-history, whose row has
  the number \<open>i\<close>.\<close>

definition task_accepted :: "engine \<Rightarrow> req_body \<Rightarrow> nat \<Rightarrow> bool" where
  "task_accepted e b now =
     (varchar_in 255 (show_nat now) \<noteq> None \<and>
      varchar_in 100 (to_string (taskName b)) \<noteq> None \<and>
      varchar_in 100 (to_string (employeeName b)) \<noteq> None \<and>
      varchar_in 7 (to_string (employeeId b)) \<noteq> None \<and>
      varchar_in 100 (to_string (email b)) \<noteq> None \<and>
      text_in (to_string (taskDescription b)) \<noteq> None \<and>
      date_param e (to_string (allocatedDate b)) \<noteq> None \<and>
      date_param e (to_string (deadline b)) \<noteq> None \<and>
      varchar_in 20 (to_string (js_or (status b) (JStr ''assigned''))) \<noteq> None)"

definition task_of :: "engine \<Rightarrow> req_body \<Rightarrow> nat \<Rightarrow> nat \<Rightarrow> task" where
  "task_of e b now current_timestamp =
     \<lparr>t_id = the (varchar_in 255 (show_nat now)),
      t_task_name = the (varchar_in 100 (to_string (taskName b))),
      t_employee_name = the (varchar_in 100 (to_string (employeeName b))),
      t_employee_id = the (varchar_in 7 (to_string (employeeId b))),
      t_email = the (varchar_in 100 (to_string (email b))),
      t_task_description = the (text_in (to_string (taskDescription b))),
      t_allocated_date = the (date_param e (to_string (allocatedDate b))),
      t_deadline = the (date_param e (to_string (deadline b))),
      t_status = the (varchar_in 20 (to_string (js_or (status b) (JStr ''assigned'')))),
      t_created_at = current_timestamp\<rparr>"

definition history_accepted :: "req_body \<Rightarrow> bool" where
  "history_accepted b =
     (varchar_in 100 (to_string (taskName b)) \<noteq> None \<and>
      varchar_in 100 (to_string (employeeName b)) \<noteq> None \<and>
      varchar_in 7 (to_string (employeeId b)) \<noteq> None \<and>
      varchar_in 100 (to_string (email b)) \<noteq> None \<and>
      text_in (to_string (description b)) \<noteq> None \<and>
      varchar_in 20 (to_string (taskStatus b)) \<noteq> None)"

definition history_of :: "req_body \<Rightarrow> byte list option \<Rightarrow> nat \<Rightarrow> nat \<Rightarrow> history" where
  "history_of b doc current_timestamp i =
     \<lparr>h_id = i, h_task_name = the (varchar_in 100 (to_string (taskName b))),
      h_employee_name = the (varchar_in 100 (to_string (employeeName b))),
      h_employee_id = the (varchar_in 7 (to_string (employeeId b))),
      h_email = the (varchar_in 100 (to_string (email b))),
      h_description = the (text_in (to_string (description b))), h_upload_doc = doc,
      h_task_status = the (varchar_in 20 (to_string (taskStatus b))),
      h_allocated_time = current_timestamp\<rparr>"

text \<open>
  A sample engine for concrete instances. It reads as an INTEGER a plain decimal numeral,
  with or without a minus sign, of a value that fits 32 bits, and as a DATE the form
  \<open>YYYY-MM-DD\<close> of a day that exists.
\<close>

definition number_of :: "string \<Rightarrow> nat" where
  "number_of s = foldl (\<lambda>n c. 10 * n + (of_char c - 48)) 0 s"

definition sample_int4_in :: "string \<Rightarrow> int option" where
  "sample_int4_in s =
     (let ds = (if take 1 s = ''-'' then drop 1 s else s);
          v = (if take 1 s = ''-'' then - int (number_of ds) else int (number_of ds)) in
      if ds \<noteq> [] \<and> list_all is_digit ds \<and> - 2147483648 \<le> v \<and> v \<le> 2147483647 then Some v
      else None)"

definition days_in_month :: "nat \<Rightarrow> nat \<Rightarrow> nat" where
  "days_in_month y m =
     (if m = 2 then (if y mod 4 = 0 \<and> (y mod 100 \<noteq> 0 \<or> y mod 400 = 0) then 29 else 28)
      else if m \<in> {4, 6, 9, 11} then 30 else 31)"

definition sample_date_in :: "string \<Rightarrow> date option" where
  "sample_date_in s =
     (let y = number_of (take 4 s); m = number_of (take 2 (drop 5 s));
          d = number_of (drop 8 s) in
      if length s = 10 \<and> take 1 (drop 4 s) = ''-'' \<and> take 1 (drop 7 s) = ''-'' \<and>
         list_all is_digit (take 4 s @ take 2 (drop 5 s) @ drop 8 s) \<and>
         1 \<le> y \<and> 1 \<le> m \<and> m \<le> 12 \<and> 1 \<le> d \<and> d \<le> days_in_month y m
      then Some (Date (int y) m d) else None)"

definition sample_engine :: engine where
  "sample_engine = \<lparr>date_in = sample_date_in, int4_in = sample_int4_in\<rparr>"



text \<open>A task-history table with a record that carries a document and one that does
  not, and a tasks table with two tasks of different employees.\<close>

definition example_history :: history where
  "example_history =
     \<lparr>h_id = 1, h_task_name = ''Audit'', h_employee_name = ''Asha'',
      h_employee_id = ''ATS0123'', h_email = ''asha.k@astrolitetech.com'',
      h_description = ''Done'', h_upload_doc = Some [0x25, 0x50, 0x44, 0x46, 0x2D],
      h_task_status = ''completed'', h_allocated_time = 3\<rparr>"

definition example_history_db :: database where
  "example_history_db =
     (create_tables empty_database)
       \<lparr>task_history := Some \<lparr>columns = task_history_columns,
          rows = [example_history, example_history\<lparr>h_id := 2, h_upload_doc := None\<rparr>],
          serial = 2\<rparr>\<rparr>"

definition example_tasks_db :: database where
  "example_tasks_db =
     (create_tables empty_database)
       \<lparr>tasks := Some \<lparr>columns = tasks_columns, rows = [example_task, example_task2],
          serial = 0\<rparr>\<rparr>"

text \<open>A store the second server has initialised and that has since received a task; its
  tasks table has no e-mail column, so the field of the row is left empty.\<close>

definition example_v2_db :: database where
  "example_v2_db =
     (create_tables_v2 empty_database)
       \<lparr>tasks := Some \<lparr>columns = tasks_columns_v2, rows = [example_task\<lparr>t_email := []\<rparr>],
          serial = 0\<rparr>\<rparr>"

text \<open>The events of failed attempts \<open>a\<close> up to, not including, \<open>k\<close>, each followed by its
  pause.\<close>

definition failed_attempts :: "nat \<Rightarrow> nat \<Rightarrow> nat \<Rightarrow> event list" where
  "failed_attempts delay a k = concat (map (\<lambda>j. [Attempt j, Sleep delay]) [a..<k])"

section \<open>Properties of the matcher\<close>

declare rmatch.simps(5) [simp del]

lemma rmatch_Star_Cls_Nil: "rmatch (Star (Cls I)) [] = [[]]"
  by (simp add: rmatch.simps(5))

lemma rmatch_Star_Cls_Cons:
  "rmatch (Star (Cls I)) (x # xs) =
     (if in_class I x then rmatch (Star (Cls I)) xs @ [x # xs] else [x # xs])"
  by (subst rmatch.simps(5)) simp

lemma set_rmatch_Lit: "set (rmatch (Lit c) s) = {t. s = c # t}"
  by (cases s) auto

lemma set_rmatch_Cls: "set (rmatch (Cls I) s) = {t. \<exists>x. s = x # t \<and> in_class I x}"
  by (cases s) auto

lemma set_rmatch_Seq: "set (rmatch (Seq a b) s) = (\<Union>u\<in>set (rmatch a s). set (rmatch b u))"
  by simp

lemma set_rmatch_lits: "set (rmatch (lits w) s) = {t. s = w @ t}"
  by (induction w arbitrary: s) (auto simp: set_rmatch_Lit)

lemma set_rmatch_rep_Cls:
  "set (rmatch (rep n (Cls I)) s) = {t. \<exists>p. s = p @ t \<and> length p = n \<and> list_all (in_class I) p}"
proof (induction n arbitrary: s)
  case 0
  then show ?case by simp
next
  case (Suc n)
  show ?case
  proof (rule set_eqI)
    fix t
    show "t \<in> set (rmatch (rep (Suc n) (Cls I)) s) \<longleftrightarrow>
          t \<in> {t. \<exists>p. s = p @ t \<and> length p = Suc n \<and> list_all (in_class I) p}"
    proof
      assume "t \<in> set (rmatch (rep (Suc n) (Cls I)) s)"
      then obtain x u p where "s = x # u" "in_class I x" "u = p @ t" "length p = n" "list_all (in_class I) p"
        by (auto simp: set_rmatch_Cls Suc.IH)
      then have "s = (x # p) @ t \<and> length (x # p) = Suc n \<and> list_all (in_class I) (x # p)" by simp
      then show "t \<in> {t. \<exists>p. s = p @ t \<and> length p = Suc n \<and> list_all (in_class I) p}" by blast
    next
      assume "t \<in> {t. \<exists>p. s = p @ t \<and> length p = Suc n \<and> list_all (in_class I) p}"
      then obtain p where p: "s = p @ t" "length p = Suc n" "list_all (in_class I) p" by blast
      then obtain x q where "p = x # q" by (cases p) auto
      with p show "t \<in> set (rmatch (rep (Suc n) (Cls I)) s)"
        by (auto simp: set_rmatch_Cls Suc.IH)
    qed
  qed
qed

lemma set_rmatch_Star_Cls:
  "set (rmatch (Star (Cls I)) s) = {t. \<exists>p. s = p @ t \<and> list_all (in_class I) p}"
proof (induction s)
  case Nil
  then show ?case by (auto simp: rmatch_Star_Cls_Nil)
next
  case (Cons x xs)
  note IH = Cons.IH
  show ?case
  proof (cases "in_class I x")
    case True
    have "set (rmatch (Star (Cls I)) (x # xs)) = insert (x # xs) (set (rmatch (Star (Cls I)) xs))"
      using True by (simp add: rmatch_Star_Cls_Cons)
    also have "\<dots> = {t. \<exists>p. x # xs = p @ t \<and> list_all (in_class I) p}"
    proof (rule set_eqI)
      fix t
      show "t \<in> insert (x # xs) (set (rmatch (Star (Cls I)) xs)) \<longleftrightarrow>
            t \<in> {t. \<exists>p. x # xs = p @ t \<and> list_all (in_class I) p}"
      proof
        assume "t \<in> insert (x # xs) (set (rmatch (Star (Cls I)) xs))"
        then consider "t = x # xs" | p where "xs = p @ t" "list_all (in_class I) p"
          by (auto simp: IH)
        then show "t \<in> {t. \<exists>p. x # xs = p @ t \<and> list_all (in_class I) p}"
        proof cases
          case 1
          then have "x # xs = [] @ t \<and> list_all (in_class I) []" by simp
          then show ?thesis by blast
        next
          case 2
          then have "x # xs = (x # p) @ t \<and> list_all (in_class I) (x # p)" using True by simp
          then show ?thesis by blast
        qed
      next
        assume "t \<in> {t. \<exists>p. x # xs = p @ t \<and> list_all (in_class I) p}"
        then obtain p where p: "x # xs = p @ t" "list_all (in_class I) p" by blast
        show "t \<in> insert (x # xs) (set (rmatch (Star (Cls I)) xs))"
        proof (cases p)
          case Nil
          with p show ?thesis by simp
        next
          case (Cons y q)
          with p have "xs = q @ t \<and> list_all (in_class I) q" by auto
          then have "t \<in> {t. \<exists>p. xs = p @ t \<and> list_all (in_class I) p}" by blast
          then show ?thesis unfolding IH [symmetric] by simp
        qed
      qed
    qed
    finally show ?thesis .
  next
    case False
    have "set (rmatch (Star (Cls I)) (x # xs)) = {x # xs}"
      using False by (simp add: rmatch_Star_Cls_Cons)
    also have "\<dots> = {t. \<exists>p. x # xs = p @ t \<and> list_all (in_class I) p}"
    proof (rule set_eqI)
      fix t
      show "t \<in> {x # xs} \<longleftrightarrow> t \<in> {t. \<exists>p. x # xs = p @ t \<and> list_all (in_class I) p}"
      proof
        assume "t \<in> {x # xs}"
        then have "x # xs = [] @ t \<and> list_all (in_class I) []" by simp
        then show "t \<in> {t. \<exists>p. x # xs = p @ t \<and> list_all (in_class I) p}" by blast
      next
        assume "t \<in> {t. \<exists>p. x # xs = p @ t \<and> list_all (in_class I) p}"
        then obtain p where p: "x # xs = p @ t" "list_all (in_class I) p" by blast
        then have "p = []" using False by (cases p) auto
        with p show "t \<in> {x # xs}" by simp
      qed
    qed
    finally show ?thesis .
  qed
qed

lemma rmatch_NegLookahead_lits:
  "rmatch (NegLookahead (lits w)) s = (if \<exists>t. s = w @ t then [] else [s])"
proof -
  have "rmatch (lits w) s = [] \<longleftrightarrow> \<not> (\<exists>t. s = w @ t)"
    using set_rmatch_lits [of w s] by (metis (mono_tags, lifting) empty_Collect_eq set_empty)
  then show ?thesis by simp
qed


lemma regex_test_Seq:
  "regex_test (Seq a b) s \<longleftrightarrow> (\<exists>u\<in>set (rmatch a s). regex_test b u)"
  by (auto simp: regex_test_def)

lemma regex_test_rep_Cls:
  "regex_test (rep n (Cls I)) s \<longleftrightarrow> length s = n \<and> list_all (in_class I) s"
  by (auto simp: regex_test_def set_rmatch_rep_Cls)

lemma regex_test_Star_Cls:
  "regex_test (Star (Cls I)) s \<longleftrightarrow> list_all (in_class I) s"
  by (auto simp: regex_test_def set_rmatch_Star_Cls)

lemma regex_test_lits: "regex_test (lits w) s \<longleftrightarrow> s = w"
  by (auto simp: regex_test_def set_rmatch_lits)

lemma in_class_digit [simp]: "in_class [Range CHR ''0'' CHR ''9''] = is_digit"
  by (rule ext) (simp add: in_class_def is_digit_def)

lemma emp_id_re_iff:
  "regex_test emp_id_re s \<longleftrightarrow> (\<exists>d. s = ''ATS0'' @ d \<and> length d = 3 \<and> list_all is_digit d)"
  unfolding emp_id_re_def digit_def regex_test_Seq set_rmatch_lits regex_test_rep_Cls
  by auto

lemma in_class_ATS:
  "in_class [Single CHR ''A'', Single CHR ''T'', Single CHR ''S''] =
     (\<lambda>c. c = CHR ''A'' \<or> c = CHR ''T'' \<or> c = CHR ''S'')"
  by (rule ext) (simp add: in_class_def)

lemma emp_id_lookup_re_iff:
  "regex_test emp_id_lookup_re s \<longleftrightarrow>
     (\<exists>p d. s = p @ ''0'' @ d \<and> length p = 3 \<and>
        list_all (\<lambda>c. c = CHR ''A'' \<or> c = CHR ''T'' \<or> c = CHR ''S'') p \<and>
        length d = 3 \<and> list_all is_digit d \<and> d \<noteq> ''000'')"
proof -
  have look: "\<And>v. (\<exists>w\<in>set (rmatch (NegLookahead (lits ''000'')) v). regex_test (rep 3 digit) w)
      \<longleftrightarrow> length v = 3 \<and> list_all is_digit v \<and> v \<noteq> ''000''"
    unfolding rmatch_NegLookahead_lits digit_def regex_test_rep_Cls by auto
  have "regex_test emp_id_lookup_re s \<longleftrightarrow>
      (\<exists>u\<in>set (rmatch (rep 3 (Cls [Single CHR ''A'', Single CHR ''T'', Single CHR ''S''])) s).
        \<exists>v\<in>set (rmatch (Lit CHR ''0'') u).
          \<exists>w\<in>set (rmatch (NegLookahead (lits ''000'')) v). regex_test (rep 3 digit) w)"
    unfolding emp_id_lookup_re_def regex_test_Seq ..
  also have "\<dots> \<longleftrightarrow>
      (\<exists>u\<in>set (rmatch (rep 3 (Cls [Single CHR ''A'', Single CHR ''T'', Single CHR ''S''])) s).
        \<exists>v\<in>set (rmatch (Lit CHR ''0'') u). length v = 3 \<and> list_all is_digit v \<and> v \<noteq> ''000'')"
    unfolding look ..
  also have "\<dots> \<longleftrightarrow> (\<exists>p d. s = p @ ''0'' @ d \<and> length p = 3 \<and>
        list_all (\<lambda>c. c = CHR ''A'' \<or> c = CHR ''T'' \<or> c = CHR ''S'') p \<and>
        length d = 3 \<and> list_all is_digit d \<and> d \<noteq> ''000'')"
    unfolding set_rmatch_rep_Cls set_rmatch_Lit in_class_ATS by auto
  finally show ?thesis .
qed

lemma in_class_letter:
  "in_class [Range CHR ''a'' CHR ''z'', Range CHR ''A'' CHR ''Z''] = is_letter"
  by (rule ext) (simp add: in_class_def is_letter_def)

lemma in_class_alnum:
  "in_class [Range CHR ''a'' CHR ''z'', Range CHR ''A'' CHR ''Z'', Range CHR ''0'' CHR ''9'']
     = is_alnum"
  by (rule ext) (simp add: in_class_def is_letter_def is_alnum_def is_digit_def)

lemma in_class_local:
  "in_class [Range CHR ''a'' CHR ''z'', Range CHR ''A'' CHR ''Z'', Range CHR ''0'' CHR ''9'',
             Single CHR ''.'', Single CHR ''_'', Single CHR ''-''] = is_local_char"
  by (rule ext)
     (simp add: in_class_def is_letter_def is_alnum_def is_digit_def is_local_char_def)

lemma email_re_iff:
  "regex_test email_re s \<longleftrightarrow>
     (\<exists>c m d. s = c # m @ d # ''@astrolitetech.com'' \<and> is_letter c \<and>
        list_all is_local_char m \<and> is_alnum d)"
proof -
  have "regex_test email_re s \<longleftrightarrow>
     (\<exists>u\<in>set (rmatch (Cls [Range CHR ''a'' CHR ''z'', Range CHR ''A'' CHR ''Z'']) s).
       \<exists>v\<in>set (rmatch (Star (Cls [Range CHR ''a'' CHR ''z'', Range CHR ''A'' CHR ''Z'',
                       Range CHR ''0'' CHR ''9'', Single CHR ''.'', Single CHR ''_'',
                       Single CHR ''-''])) u).
         \<exists>w\<in>set (rmatch (Cls [Range CHR ''a'' CHR ''z'', Range CHR ''A'' CHR ''Z'',
                   Range CHR ''0'' CHR ''9'']) v). w = ''@astrolitetech.com'')"
    unfolding email_re_def regex_test_Seq regex_test_lits ..
  also have "\<dots> \<longleftrightarrow> (\<exists>c m d. s = c # m @ d # ''@astrolitetech.com'' \<and> is_letter c \<and>
        list_all is_local_char m \<and> is_alnum d)"
    unfolding set_rmatch_Cls set_rmatch_Star_Cls in_class_letter in_class_alnum in_class_local
    by auto
  finally show ?thesis .
qed


section \<open>Properties of the decoder\<close>

lemma mod_window:
  fixes n m q :: nat
  assumes "q * m \<le> n" and "n < q * m + m"
  shows "n mod m = n - q * m"
proof -
  have "n = q * m + (n - q * m)" using assms(1) by simp
  then have "n mod m = (q * m + (n - q * m)) mod m" by simp
  also have "\<dots> = (n - q * m) mod m" by (simp only: mod_mult_self3)
  also have "\<dots> = n - q * m" using assms(2) by (simp add: less_diff_conv2 assms(1) add.commute)
  finally show ?thesis .
qed

lemma mod_32_two_byte: "194 \<le> (n::nat) \<and> n \<le> 223 \<Longrightarrow> 2 \<le> n mod 32"
proof -
  assume h: "194 \<le> n \<and> n \<le> 223"
  then have "n mod 32 = n - 192" using mod_window [of 6 32 n] by simp
  with h show ?thesis by linarith
qed

lemma mod_16_three_byte: "224 \<le> (n::nat) \<and> n \<le> 239 \<Longrightarrow> n \<noteq> 224 \<Longrightarrow> 1 \<le> n mod 16"
proof -
  assume h: "224 \<le> n \<and> n \<le> 239" "n \<noteq> 224"
  then have "n mod 16 = n - 224" using mod_window [of 14 16 n] by simp
  with h show ?thesis by linarith
qed

lemma mod_8_four_byte: "240 \<le> (n::nat) \<and> n \<le> 244 \<Longrightarrow> n \<noteq> 240 \<Longrightarrow> 1 \<le> n mod 8"
proof -
  assume h: "240 \<le> n \<and> n \<le> 244" "n \<noteq> 240"
  then have "n mod 8 = n - 240" using mod_window [of 30 8 n] by simp
  with h show ?thesis by linarith
qed

lemma mod_64_continuation: "128 \<le> (l::nat) \<and> l \<le> n \<and> n \<le> 191 \<Longrightarrow> l mod 64 \<le> n mod 64"
proof -
  assume h: "128 \<le> l \<and> l \<le> n \<and> n \<le> 191"
  then have "n mod 64 = n - 128" "l mod 64 = l - 128"
    using mod_window [of 2 64 n] mod_window [of 2 64 l] by simp_all
  with h show ?thesis by linarith
qed

lemma unat_and_mask_mod: "unat ((b::byte) AND mask n) = unat b mod 2 ^ n"
proof -
  have "b AND mask n = take_bit n b" by (simp add: take_bit_eq_mask)
  then have "unat (b AND mask n) = take_bit n (unat b)" by (simp only: unsigned_take_bit_eq)
  then show ?thesis by (simp only: take_bit_eq_mod)
qed

lemma unat_and_3F: "unat ((b::byte) AND 0x3F) = unat b mod 64"
  using unat_and_mask_mod [of b 6] by (simp add: mask_eq_exp_minus_1)

lemma unat_and_1F: "unat ((b::byte) AND 0x1F) = unat b mod 32"
  using unat_and_mask_mod [of b 5] by (simp add: mask_eq_exp_minus_1)

lemma unat_and_0F: "unat ((b::byte) AND 0x0F) = unat b mod 16"
  using unat_and_mask_mod [of b 4] by (simp add: mask_eq_exp_minus_1)

lemma unat_and_07: "unat ((b::byte) AND 0x07) = unat b mod 8"
  using unat_and_mask_mod [of b 3] by (simp add: mask_eq_exp_minus_1)

lemma utf16_units_ascii: "list_all (\<lambda>u. u \<le> 0x7F) (utf16_units cp) \<longleftrightarrow> cp \<le> 0x7F"
  by (simp add: utf16_units_def)


declare utf8_decode.simps [simp del]


lemma dec_nil: "utf8_decode cp needed lo hi [] = (if needed = 0 then [] else [0xFFFD])"
  by (simp add: utf8_decode.simps(1))

lemma dec_ascii:
  "b \<le> 0x7F \<Longrightarrow> utf8_decode cp 0 lo hi (b # bs) = unat b # utf8_decode 0 0 0x80 0xBF bs"
  by (subst utf8_decode.simps) (simp only: simp_thms if_True if_False)

lemma dec_two:
  "\<not> b \<le> 0x7F \<Longrightarrow> 0xC2 \<le> b \<and> b \<le> 0xDF \<Longrightarrow>
   utf8_decode cp 0 lo hi (b # bs) = utf8_decode (unat (b AND 0x1F)) 1 0x80 0xBF bs"
  by (subst utf8_decode.simps) (simp only: simp_thms if_True if_False)

lemma dec_three:
  "\<not> b \<le> 0x7F \<Longrightarrow> \<not> (0xC2 \<le> b \<and> b \<le> 0xDF) \<Longrightarrow> 0xE0 \<le> b \<and> b \<le> 0xEF \<Longrightarrow>
   utf8_decode cp 0 lo hi (b # bs) =
     utf8_decode (unat (b AND 0x0F)) 2
       (if b = 0xE0 then 0xA0 else 0x80) (if b = 0xED then 0x9F else 0xBF) bs"
  by (subst utf8_decode.simps) (simp only: simp_thms if_True if_False)

lemma dec_four:
  "\<not> b \<le> 0x7F \<Longrightarrow> \<not> (0xC2 \<le> b \<and> b \<le> 0xDF) \<Longrightarrow> \<not> (0xE0 \<le> b \<and> b \<le> 0xEF) \<Longrightarrow>
   0xF0 \<le> b \<and> b \<le> 0xF4 \<Longrightarrow>
   utf8_decode cp 0 lo hi (b # bs) =
     utf8_decode (unat (b AND 0x07)) 3
       (if b = 0xF0 then 0x90 else 0x80) (if b = 0xF4 then 0x8F else 0xBF) bs"
  by (subst utf8_decode.simps) (simp only: simp_thms if_True if_False)

lemma dec_bad:
  "\<not> b \<le> 0x7F \<Longrightarrow> \<not> (0xC2 \<le> b \<and> b \<le> 0xDF) \<Longrightarrow> \<not> (0xE0 \<le> b \<and> b \<le> 0xEF) \<Longrightarrow>
   \<not> (0xF0 \<le> b \<and> b \<le> 0xF4) \<Longrightarrow>
   utf8_decode cp 0 lo hi (b # bs) = 0xFFFD # utf8_decode 0 0 0x80 0xBF bs"
  by (subst utf8_decode.simps) (simp only: simp_thms if_True if_False)

lemma dec_last:
  "lo \<le> b \<and> b \<le> hi \<Longrightarrow>
   utf8_decode cp 1 lo hi (b # bs) =
     (cp * 64 + unat (b AND 0x3F)) # utf8_decode 0 0 0x80 0xBF bs"
  by (subst utf8_decode.simps) (simp add: Let_def)

lemma dec_more:
  "needed \<noteq> 0 \<Longrightarrow> needed \<noteq> 1 \<Longrightarrow> lo \<le> b \<and> b \<le> hi \<Longrightarrow>
   utf8_decode cp needed lo hi (b # bs) =
     utf8_decode (cp * 64 + unat (b AND 0x3F)) (needed - 1) 0x80 0xBF bs"
  by (subst utf8_decode.simps) (simp add: Let_def)

lemma dec_broken:
  "needed \<noteq> 0 \<Longrightarrow> \<not> (lo \<le> b \<and> b \<le> hi) \<Longrightarrow>
   utf8_decode cp needed lo hi (b # bs) = 0xFFFD # utf8_decode 0 0 0x80 0xBF (b # bs)"
  by (subst utf8_decode.simps) (simp only: simp_thms if_True if_False)





lemma utf8_decode_ascii:
  "(needed = 0 \<longrightarrow>
      (list_all (\<lambda>u. u \<le> 0x7F) (concat (map utf16_units (utf8_decode cp needed lo hi bs)))
        \<longleftrightarrow> list_all (\<lambda>b. b \<le> 0x7F) bs)) \<and>
   (needed \<noteq> 0 \<and> non_ascii_ok cp needed lo hi \<longrightarrow>
      \<not> list_all (\<lambda>u. u \<le> 0x7F) (concat (map utf16_units (utf8_decode cp needed lo hi bs))))"
proof (induction cp needed lo hi bs rule: utf8_decode.induct)
  case (1 cp needed lo hi)
  then show ?case by (simp add: utf16_units_ascii dec_nil)
next
  case (2 cp needed lo hi b bs)
  show ?case
  proof (cases "needed = 0")
    case True
    note start = True
    consider (ascii) "b \<le> 0x7F"
      | (two) "\<not> b \<le> 0x7F" "0xC2 \<le> b \<and> b \<le> 0xDF"
      | (three) "\<not> b \<le> 0x7F" "\<not> (0xC2 \<le> b \<and> b \<le> 0xDF)" "0xE0 \<le> b \<and> b \<le> 0xEF"
      | (four) "\<not> b \<le> 0x7F" "\<not> (0xC2 \<le> b \<and> b \<le> 0xDF)" "\<not> (0xE0 \<le> b \<and> b \<le> 0xEF)"
          "0xF0 \<le> b \<and> b \<le> 0xF4"
      | (bad) "\<not> b \<le> 0x7F" "\<not> (0xC2 \<le> b \<and> b \<le> 0xDF)" "\<not> (0xE0 \<le> b \<and> b \<le> 0xEF)"
          "\<not> (0xF0 \<le> b \<and> b \<le> 0xF4)"
      by blast
    then show ?thesis
    proof cases
      case ascii
      then have "unat b \<le> 127" by (simp add: word_le_nat_alt)
      moreover have "ascii_units (concat (map utf16_units (utf8_decode 0 0 0x80 0xBF bs)))
          \<longleftrightarrow> list_all (\<lambda>b. b \<le> 0x7F) bs"
        using "2.IH"(1) [OF start ascii] by simp
      ultimately show ?thesis
        unfolding start dec_ascii [OF ascii] using ascii by (simp add: utf16_units_ascii)
    next
      case two
      then have "194 \<le> unat b \<and> unat b \<le> 223" by (simp add: word_le_nat_alt)
      then have "2 \<le> unat b mod 32" by (rule mod_32_two_byte)
      then have "non_ascii_ok (unat (b AND 0x1F)) 1 0x80 0xBF"
        unfolding non_ascii_ok_def unat_and_1F by simp
      then have "\<not> ascii_units (concat (map utf16_units (utf8_decode (unat (b AND 0x1F)) 1 0x80 0xBF bs)))"
        using "2.IH"(2) [OF start two] by simp
      then show ?thesis
        unfolding start dec_two [OF two] using two(1) by simp
    next
      case three
      then have r: "224 \<le> unat b \<and> unat b \<le> 239" by (simp add: word_le_nat_alt)
      have "non_ascii_ok (unat (b AND 0x0F)) 2
              (if b = 0xE0 then 0xA0 else 0x80) (if b = 0xED then 0x9F else 0xBF)"
      proof (cases "b = 0xE0")
        case True
        then show ?thesis unfolding non_ascii_ok_def by simp
      next
        case False
        then have "unat b \<noteq> 224" by (simp add: word_unat_eq_iff)
        with r have "1 \<le> unat b mod 16" by (rule mod_16_three_byte)
        then have "128 \<le> (unat b mod 16 * 64) * 64" by simp
        with False show ?thesis unfolding non_ascii_ok_def unat_and_0F by simp
      qed
      then have "\<not> ascii_units (concat (map utf16_units (utf8_decode (unat (b AND 0x0F)) 2
              (if b = 0xE0 then 0xA0 else 0x80) (if b = 0xED then 0x9F else 0xBF) bs)))"
        using "2.IH"(3) [OF start three] by simp
      then show ?thesis
        unfolding start dec_three [OF three] using three(1) by simp
    next
      case four
      then have r: "240 \<le> unat b \<and> unat b \<le> 244" by (simp add: word_le_nat_alt)
      have "non_ascii_ok (unat (b AND 0x07)) 3
              (if b = 0xF0 then 0x90 else 0x80) (if b = 0xF4 then 0x8F else 0xBF)"
      proof (cases "b = 0xF0")
        case True
        then show ?thesis unfolding non_ascii_ok_def by simp
      next
        case False
        then have "unat b \<noteq> 240" by (simp add: word_unat_eq_iff)
        with r have "1 \<le> unat b mod 8" by (rule mod_8_four_byte)
        then have "128 \<le> (unat b mod 8 * 64) * 64 ^ 2" by simp
        with False show ?thesis unfolding non_ascii_ok_def unat_and_07 by simp
      qed
      then have "\<not> ascii_units (concat (map utf16_units (utf8_decode (unat (b AND 0x07)) 3
              (if b = 0xF0 then 0x90 else 0x80) (if b = 0xF4 then 0x8F else 0xBF) bs)))"
        using "2.IH"(4) [OF start four] by simp
      then show ?thesis
        unfolding start dec_four [OF four] using four(1) by simp
    next
      case bad
      show ?thesis
        unfolding start dec_bad [OF bad] using bad(1) by (simp add: utf16_units_ascii)
    qed
  next
    case False
    note cont = False
    show ?thesis
    proof (cases "lo \<le> b \<and> b \<le> hi")
      case True
      note inr = True
      have "non_ascii_ok cp needed lo hi \<Longrightarrow>
        \<not> ascii_units (concat (map utf16_units (utf8_decode cp needed lo hi (b # bs))))"
      proof -
        assume "non_ascii_ok cp needed lo hi"
        then have ok: "0x80 \<le> lo" "hi \<le> 0xBF"
            "128 \<le> (cp * 64 + unat (lo AND 0x3F)) * 64 ^ (needed - 1)"
          by (simp_all add: non_ascii_ok_def)
        from ok inr have "128 \<le> unat lo \<and> unat lo \<le> unat b \<and> unat b \<le> 191"
          by (simp add: word_le_nat_alt)
        then have "unat lo mod 64 \<le> unat b mod 64" by (rule mod_64_continuation)
        then have ge: "cp * 64 + unat (lo AND 0x3F) \<le> cp * 64 + unat (b AND 0x3F)"
          by (simp add: unat_and_3F)
        show ?thesis
        proof (cases "needed = 1")
          case True
          with ok(3) ge have "128 \<le> cp * 64 + unat (b AND 0x3F)" by simp
          then show ?thesis
            unfolding True dec_last [OF inr] by (simp add: utf16_units_ascii)
        next
          case False
          with cont obtain m where m: "needed = Suc (Suc m)"
            by (cases needed) (auto simp: gr0_conv_Suc)
          from ok(3) ge have "128 \<le> (cp * 64 + unat (b AND 0x3F)) * 64 ^ (needed - 1)"
            by (meson le_trans mult_le_mono1)
          moreover have e: "needed - 1 = Suc m" using m by simp
          ultimately have "128 \<le> (cp * 64 + unat (b AND 0x3F)) * 64 ^ Suc m"
            by (simp only: e)
          then have "128 \<le> (cp * 64 + unat (b AND 0x3F)) * 64 * 64 ^ m"
            by (simp only: power_Suc mult.assoc)
          then have "non_ascii_ok (cp * 64 + unat (b AND 0x3F)) (needed - 1) 0x80 0xBF"
            unfolding non_ascii_ok_def using m by simp
          moreover have "needed - 1 \<noteq> 0" using m by simp
          ultimately have "\<not> ascii_units (concat (map utf16_units
              (utf8_decode (cp * 64 + unat (b AND 0x3F)) (needed - 1) 0x80 0xBF bs)))"
            using "2.IH"(7) [OF cont inr refl False] by blast
          then show ?thesis unfolding dec_more [OF cont False inr] .
        qed
      qed
      with cont show ?thesis by blast
    next
      case False
      have "\<not> ascii_units (concat (map utf16_units (utf8_decode cp needed lo hi (b # bs))))"
        unfolding dec_broken [OF cont False] by (simp add: utf16_units_ascii)
      with cont show ?thesis by blast
    qed
  qed
qed



section \<open>The content-type sniff against its specification\<close>

lemma toString_ascii:
  "list_all (\<lambda>u. u \<le> 0x7F) (toString buf) \<longleftrightarrow> list_all (\<lambda>b. b \<le> 0x7F) buf"
  unfolding toString_def using utf8_decode_ascii [of 0 0 "0x80" "0xBF" buf] by simp

lemma in_class_ascii: "in_class [Range (0::nat) 0x7F] = (\<lambda>u. u \<le> 0x7F)"
  by (rule ext) (simp add: in_class_def)

lemma ascii_test_iff:
  "regex_test ascii_re (toString buf) \<longleftrightarrow> list_all (\<lambda>b. b \<le> 0x7F) buf"
  unfolding ascii_re_def regex_test_Star_Cls in_class_ascii by (rule toString_ascii)

lemma sniff_bytes:
  "sniff (a # b # c # d # e # r) =
     (if a = 0x25 \<and> b = 0x50 \<and> c = 0x44 \<and> d = 0x46 then ''application/pdf''
      else if a = 0x89 \<and> b = 0x50 \<and> c = 0x4E \<and> d = 0x47 then ''image/png''
      else if a = 0xFF \<and> b = 0xD8 \<and> c = 0xFF then ''image/jpeg''
      else if list_all (\<lambda>x. x \<le> 0x7F) (take 100 (a # b # c # d # e # r)) then ''text/plain''
      else ''application/octet-stream'')"
  unfolding sniff_def ascii_test_iff by simp

lemma sniff_spec_bytes:
  "sniff_spec (a # b # c # d # e # r) =
     (if a = 0x25 \<and> b = 0x50 \<and> c = 0x44 \<and> d = 0x46 then ''application/pdf''
      else if a = 0x89 \<and> b = 0x50 \<and> c = 0x4E \<and> d = 0x47 then ''image/png''
      else if a = 0xFF \<and> b = 0xD8 \<and> c = 0xFF then ''image/jpeg''
      else if list_all (\<lambda>x. x \<le> 0x7F) (take 100 (a # b # c # d # e # r)) then ''text/plain''
      else ''application/octet-stream'')"
  unfolding sniff_spec_def by simp

lemma five_or_more: "4 < length (xs::'a list) \<Longrightarrow> \<exists>a b c d e r. xs = a # b # c # d # e # r"
  by (cases xs; simp; rename_tac x1 l1; case_tac l1; simp; rename_tac x2 l2; case_tac l2; simp;
      rename_tac x3 l3; case_tac l3; simp; rename_tac x4 l4; case_tac l4; simp)

text \<open>
  C1 (as amended). The whole sniff sits behind the test \<open>fileBuffer.length > 4\<close>. On a
  stored blob of more than four bytes it labels by the five steps of the specification, first
  match first: \<open>25 50 44 46\<close> is \<open>application/pdf\<close>, else \<open>89 50 4E 47\<close> is \<open>image/png\<close>, else
  \<open>FF D8 FF\<close> is \<open>image/jpeg\<close>, else \<open>text/plain\<close> when the first hundred bytes (or all of them,
  if fewer) are 0x00-0x7F, else \<open>application/octet-stream\<close>. A blob of at most four bytes is
  \<open>application/octet-stream\<close> whatever it holds.
\<close>

theorem sniff_agrees_beyond_four_bytes:
  "(4 < length blob \<longrightarrow> sniff blob = sniff_spec blob) \<and>
   (length blob \<le> 4 \<longrightarrow> sniff blob = ''application/octet-stream'')"
proof (intro conjI impI)
  assume "4 < length blob"
  then obtain a b c d e r where "blob = a # b # c # d # e # r"
    using five_or_more by blast
  then show "sniff blob = sniff_spec blob"
    by (simp only: sniff_bytes sniff_spec_bytes)
next
  assume "length blob \<le> 4"
  then show "sniff blob = ''application/octet-stream''" by (simp add: sniff_def)
qed

text \<open>Instances: a PDF header with one more byte, six bytes of ASCII text, and the bare
  three-byte JPEG prefix.\<close>

theorem sniff_agrees_beyond_four_bytes_witness:
  "sniff [0x25, 0x50, 0x44, 0x46, 0x2D] = ''application/pdf'' \<and>
   sniff [0x68, 0x65, 0x6C, 0x6C, 0x6F, 0x0A] = ''text/plain'' \<and>
   sniff [0xFF, 0xD8, 0xFF] = ''application/octet-stream''"
  using sniff_agrees_beyond_four_bytes [of "[0x25, 0x50, 0x44, 0x46, 0x2D]"]
        sniff_agrees_beyond_four_bytes [of "[0x68, 0x65, 0x6C, 0x6C, 0x6F, 0x0A]"]
        sniff_agrees_beyond_four_bytes [of "[0xFF, 0xD8, 0xFF]"]
  by (simp add: sniff_spec_def)

text \<open>C1 as stated fails on short blobs: three ASCII bytes are \<open>text/plain\<close> by the
  five steps and the bare JPEG prefix is \<open>image/jpeg\<close>, but the handler sends both as
  \<open>application/octet-stream\<close>.\<close>

theorem sniff_short_blob_counterexample:
  "sniff [0x61, 0x62, 0x63] = ''application/octet-stream'' \<and>
   sniff_spec [0x61, 0x62, 0x63] = ''text/plain'' \<and>
   sniff [0xFF, 0xD8, 0xFF] = ''application/octet-stream'' \<and>
   sniff_spec [0xFF, 0xD8, 0xFF] = ''image/jpeg''"
  by (simp add: sniff_def sniff_spec_def)


section \<open>The e-mail check\<close>

lemma email_re_vs_spec:
  "regex_test email_re s \<longleftrightarrow>
     isValidCompanyEmail_spec s \<and> is_letter (hd s) \<and> 20 \<le> length s"
proof
  assume "regex_test email_re s"
  then obtain c m d where s: "s = c # m @ d # ''@astrolitetech.com''" and
      c: "is_letter c" and m: "list_all is_local_char m" and d: "is_alnum d"
    unfolding email_re_iff by blast
  define l where "l = c # m @ [d]"
  have split: "s = l @ ''@astrolitetech.com''" unfolding s l_def by simp
  have n: "length s - length ''@astrolitetech.com'' = length l"
    unfolding split by simp
  have tk: "take (length l) s = l" and dr: "drop (length l) s = ''@astrolitetech.com''"
    unfolding split by simp_all
  have "l \<noteq> []" "hd l = c" "last l = d" "butlast (tl l) = m"
    unfolding l_def by (simp_all add: butlast_append)
  then have "isValidCompanyEmail_spec s"
    unfolding isValidCompanyEmail_spec_def Let_def n tk dr
    using c m d by (simp add: is_alnum_def)
  moreover have "is_letter (hd s)" using c s by simp
  moreover have "20 \<le> length s" unfolding s by simp
  ultimately show "isValidCompanyEmail_spec s \<and> is_letter (hd s) \<and> 20 \<le> length s" by blast
next
  assume a: "isValidCompanyEmail_spec s \<and> is_letter (hd s) \<and> 20 \<le> length s"
  define n where "n = length s - length ''@astrolitetech.com''"
  define l where "l = take n s"
  from a have sp: "drop n s = ''@astrolitetech.com''" "is_alnum (last l)"
      "list_all is_local_char (butlast (tl l))"
    unfolding isValidCompanyEmail_spec_def Let_def n_def l_def by simp_all
  have d18: "length ''@astrolitetech.com'' = 18" by simp
  from a have a3: "20 \<le> length s" by blast
  have len: "length l = n" "2 \<le> n" using a3 unfolding l_def n_def d18 by simp_all
  then obtain c t where l1: "l = c # t" and "t \<noteq> []"
    by (cases l) (auto simp: Suc_le_eq)
  then obtain m d where t: "t = m @ [d]" by (metis rev_exhaust)
  have s: "s = l @ ''@astrolitetech.com''"
    using sp(1) unfolding l_def by (metis append_take_drop_id)
  have "s = c # m @ d # ''@astrolitetech.com''" unfolding s l1 t by simp
  moreover have "is_letter c" using a unfolding s l1 by simp
  moreover have "list_all is_local_char m" using sp(3) unfolding l1 t by simp
  moreover have "is_alnum d" using sp(2) unfolding l1 t by simp
  ultimately show "regex_test email_re s" unfolding email_re_iff by blast
qed


lemma post_tasks_bad_email:
  "tasks_fields_present b \<Longrightarrow> \<not> regex_test email_re (to_string (email b)) \<Longrightarrow>
   post_tasks e b now ts db =
     (respond 400 (Error ''Invalid email format. Must be name@astrolitetech.com''), db)"
  by (simp add: post_tasks_def tasks_fields_present_def)

lemma post_task_history_bad_email:
  "history_fields_present b \<Longrightarrow> \<not> regex_test email_re (to_string (email b)) \<Longrightarrow>
   post_task_history b file ts db = (respond 400 (Error ''Invalid email format''), db)"
  by (simp add: post_task_history_def history_fields_present_def)

text \<open>
  C2 (as amended). The e-mail check of POST /api/tasks and POST /api/task-history accepts a
  string exactly when it is a local part followed by \<open>@astrolitetech.com\<close>, where the local
  part has at least two characters, starts with a letter, ends with an alphanumeric
  character and has only alphanumerics, \<open>.\<close>, \<open>_\<close> and \<open>-\<close> in between. These are the
  strings the specification's rule accepts that also start with a letter and have a local
  part of two characters or more. \<open>a.b-c_9@astrolitetech.com\<close> is accepted;
  \<open>.abc@astrolitetech.com\<close> and \<open>abc@other.com\<close> are rejected, and a rejected e-mail in a
  request with every required field answers 400 and leaves the store as it was.
\<close>

theorem email_validator_accepts:
  "(regex_test email_re s \<longleftrightarrow>
      (\<exists>c m d. s = c # m @ d # ''@astrolitetech.com'' \<and> is_letter c \<and>
         list_all is_local_char m \<and> is_alnum d)) \<and>
   (regex_test email_re s \<longleftrightarrow>
      isValidCompanyEmail_spec s \<and> is_letter (hd s) \<and> 20 \<le> length s) \<and>
   regex_test email_re ''a.b-c_9@astrolitetech.com'' \<and>
   \<not> regex_test email_re ''.abc@astrolitetech.com'' \<and>
   \<not> regex_test email_re ''abc@other.com'' \<and>
   (tasks_fields_present b \<and> \<not> regex_test email_re (to_string (email b)) \<longrightarrow>
      post_tasks e b now ts db =
        (respond 400 (Error ''Invalid email format. Must be name@astrolitetech.com''), db)) \<and>
   (history_fields_present b \<and> \<not> regex_test email_re (to_string (email b)) \<longrightarrow>
      post_task_history b file ts db = (respond 400 (Error ''Invalid email format''), db))"
proof -
  have "regex_test email_re ''a.b-c_9@astrolitetech.com''" by code_simp
  moreover have "\<not> regex_test email_re ''.abc@astrolitetech.com''" by code_simp
  moreover have "\<not> regex_test email_re ''abc@other.com''" by code_simp
  ultimately show ?thesis
    using email_re_iff [of s] email_re_vs_spec [of s]
      post_tasks_bad_email [of b e now ts db] post_task_history_bad_email [of b "file" ts db]
    by blast
qed

text \<open>An instance: \<open>ab@astrolitetech.com\<close> is accepted, and a request whose only flaw is
  the one-letter local part \<open>a\<close> is refused by both handlers.\<close>

theorem email_validator_accepts_witness:
  "isValidCompanyEmail_spec ''ab@astrolitetech.com'' \<and>
   post_tasks sample_engine (example_body\<lparr>email := JStr ''a@astrolitetech.com''\<rparr>) 42 7
       (create_tables empty_database) =
     (respond 400 (Error ''Invalid email format. Must be name@astrolitetech.com''),
      create_tables empty_database) \<and>
   post_task_history (example_body\<lparr>email := JStr ''a@astrolitetech.com''\<rparr>) None 7
       (create_tables empty_database) =
     (respond 400 (Error ''Invalid email format''), create_tables empty_database)"
proof -
  have ok: "regex_test email_re ''ab@astrolitetech.com''" by code_simp
  have bad: "tasks_fields_present (example_body\<lparr>email := JStr ''a@astrolitetech.com''\<rparr>) \<and>
      history_fields_present (example_body\<lparr>email := JStr ''a@astrolitetech.com''\<rparr>) \<and>
      \<not> regex_test email_re
          (to_string (email (example_body\<lparr>email := JStr ''a@astrolitetech.com''\<rparr>)))"
    by code_simp
  show ?thesis
    using ok bad
      email_validator_accepts [of "''ab@astrolitetech.com''"
        "example_body\<lparr>email := JStr ''a@astrolitetech.com''\<rparr>" sample_engine 42 7
        "create_tables empty_database" None]
    by blast
qed

text \<open>C2 as stated fails: \<open>a@astrolitetech.com\<close> and \<open>9a@astrolitetech.com\<close> satisfy the
  rule of the specification, and the validator rejects both.\<close>

theorem email_single_letter_counterexample:
  "isValidCompanyEmail_spec ''a@astrolitetech.com'' \<and>
   \<not> regex_test email_re ''a@astrolitetech.com'' \<and>
   isValidCompanyEmail_spec ''9a@astrolitetech.com'' \<and>
   \<not> regex_test email_re ''9a@astrolitetech.com'' \<and>
   fst (post_tasks sample_engine (example_body\<lparr>email := JStr ''a@astrolitetech.com''\<rparr>) 42 7
          (create_tables empty_database)) =
     respond 400 (Error ''Invalid email format. Must be name@astrolitetech.com'')"
  by code_simp


section \<open>The two employee-ID checks\<close>

lemma get_employee_400_iff:
  "get_employee s db = respond 400 (Error ''Invalid employee ID format'') \<longleftrightarrow>
     \<not> regex_test emp_id_lookup_re s"
  by (auto simp: get_employee_def respond_def split: sum.splits list.splits)

lemma filter_params_accepts_iff:
  "filter_params (JStr s) = Inr [JStr s] \<longleftrightarrow> regex_test emp_id_re s"
proof -
  have "regex_test emp_id_re s \<Longrightarrow> s \<noteq> []" by (auto simp: emp_id_re_iff)
  then show ?thesis by (auto simp: filter_params_def)
qed

lemma filter_params_cases:
  "filter_params v =
     (if \<not> truthy v then Inr []
      else if regex_test emp_id_re (to_string v) then Inr [v]
      else Inl (respond 400 (Error ''Invalid employee ID format'')))"
  by (simp add: filter_params_def)

lemma get_tasks_400_iff:
  "get_tasks v db = respond 400 (Error ''Invalid employee ID format'') \<longleftrightarrow>
     truthy v \<and> \<not> regex_test emp_id_re (to_string v)"
  by (auto simp: get_tasks_def filter_params_cases respond_def split: sum.splits)

lemma get_task_history_400_iff:
  "get_task_history v db = respond 400 (Error ''Invalid employee ID format'') \<longleftrightarrow>
     truthy v \<and> \<not> regex_test emp_id_re (to_string v)"
  by (auto simp: get_task_history_def filter_params_cases respond_def split: sum.splits)

lemma post_tasks_400_iff:
  "tasks_fields_present b \<Longrightarrow> regex_test email_re (to_string (email b)) \<Longrightarrow>
   status_code (fst (post_tasks e b now ts db)) = 400 \<longleftrightarrow>
     \<not> regex_test emp_id_re (to_string (employeeId b))"
  by (auto simp: post_tasks_def tasks_fields_present_def respond_def
           split: sum.splits prod.splits)

lemma post_task_history_400_iff:
  "history_fields_present b \<Longrightarrow> regex_test email_re (to_string (email b)) \<Longrightarrow>
   status_code (fst (post_task_history b doc ts db)) = 400 \<longleftrightarrow>
     \<not> regex_test emp_id_re (to_string (employeeId b))"
  by (auto simp: post_task_history_def history_fields_present_def respond_def
           split: sum.splits prod.splits)


lemma post_tasks_id_400_iff:
  assumes "tasks_payload_ok b"
  shows "status_code (fst (post_tasks e (b\<lparr>employeeId := JStr s\<rparr>) now ts db)) = 400 \<longleftrightarrow>
     \<not> regex_test emp_id_re s"
proof (cases "s = []")
  case True
  have "\<not> regex_test emp_id_re []" by (auto simp: emp_id_re_iff)
  with True show ?thesis by (simp add: post_tasks_def respond_def)
next
  case False
  with assms have "tasks_fields_present (b\<lparr>employeeId := JStr s\<rparr>)"
      "regex_test email_re (to_string (email (b\<lparr>employeeId := JStr s\<rparr>)))"
    by (simp_all add: tasks_payload_ok_def tasks_fields_present_def)
  then show ?thesis using post_tasks_400_iff [of "b\<lparr>employeeId := JStr s\<rparr>" e now ts db] by simp
qed

lemma post_task_history_id_400_iff:
  assumes "history_payload_ok b"
  shows "status_code (fst (post_task_history (b\<lparr>employeeId := JStr s\<rparr>) doc ts db)) = 400 \<longleftrightarrow>
     \<not> regex_test emp_id_re s"
proof (cases "s = []")
  case True
  have "\<not> regex_test emp_id_re []" by (auto simp: emp_id_re_iff)
  with True show ?thesis by (simp add: post_task_history_def respond_def)
next
  case False
  with assms have "history_fields_present (b\<lparr>employeeId := JStr s\<rparr>)"
      "regex_test email_re (to_string (email (b\<lparr>employeeId := JStr s\<rparr>)))"
    by (simp_all add: history_payload_ok_def history_fields_present_def)
  then show ?thesis
    using post_task_history_400_iff [of "b\<lparr>employeeId := JStr s\<rparr>" doc ts db] by simp
qed



text \<open>
  C3 (as amended). Two employee-ID predicates are in use and they differ.
  GET /api/employees/:empId answers 400 exactly on the strings that do not match
  \<open>^[ATS]{3}0(?!000)[0-9]{3}$\<close>: three letters each of A, T, S, then \<open>0\<close>, then three digits
  other than \<open>000\<close>. The task and task-history endpoints test \<open>^ATS0\\d{3}$\<close>: \<open>ATS0\<close> and
  three digits. The two listing endpoints take a string as their filter exactly when it
  matches; they answer 400 on every other string except the empty one, which they accept
  as no filter at all. The two creating endpoints, in a request that is valid otherwise
  (and, for POST /api/task-history, whose upload the middleware has passed on), answer 400
  exactly when the string does not match. \<open>ATS0000\<close> is refused by the look-up and accepted
  by the others; \<open>SAT0001\<close> the other way round.
\<close>

theorem employee_id_predicates:
  "(regex_test emp_id_lookup_re s \<longleftrightarrow>
      (\<exists>p d. s = p @ ''0'' @ d \<and> length p = 3 \<and>
         list_all (\<lambda>c. c = CHR ''A'' \<or> c = CHR ''T'' \<or> c = CHR ''S'') p \<and>
         length d = 3 \<and> list_all is_digit d \<and> d \<noteq> ''000'')) \<and>
   (regex_test emp_id_re s \<longleftrightarrow>
      (\<exists>d. s = ''ATS0'' @ d \<and> length d = 3 \<and> list_all is_digit d)) \<and>
   (get_employee s db = respond 400 (Error ''Invalid employee ID format'') \<longleftrightarrow>
      \<not> regex_test emp_id_lookup_re s) \<and>
   (filter_params (JStr s) = Inr [JStr s] \<longleftrightarrow> regex_test emp_id_re s) \<and>
   (filter_params (JStr s) = Inr [] \<longleftrightarrow> s = []) \<and>
   (get_tasks (JStr s) db = respond 400 (Error ''Invalid employee ID format'') \<longleftrightarrow>
      s \<noteq> [] \<and> \<not> regex_test emp_id_re s) \<and>
   (get_task_history (JStr s) db = respond 400 (Error ''Invalid employee ID format'') \<longleftrightarrow>
      s \<noteq> [] \<and> \<not> regex_test emp_id_re s) \<and>
   (tasks_payload_ok b \<longrightarrow>
      (status_code (fst (post_tasks e (b\<lparr>employeeId := JStr s\<rparr>) now ts db)) = 400 \<longleftrightarrow>
         \<not> regex_test emp_id_re s)) \<and>
   (history_payload_ok b \<and> upload_single part = Inr doc \<longrightarrow>
      (status_code (fst (post_task_history_route (b\<lparr>employeeId := JStr s\<rparr>) part ts db)) = 400
         \<longleftrightarrow> \<not> regex_test emp_id_re s)) \<and>
   \<not> regex_test emp_id_lookup_re ''ATS0000'' \<and> regex_test emp_id_re ''ATS0000'' \<and>
   regex_test emp_id_lookup_re ''SAT0001'' \<and> \<not> regex_test emp_id_re ''SAT0001''"
proof -
  have "\<not> regex_test emp_id_lookup_re ''ATS0000''" by code_simp
  moreover have "regex_test emp_id_re ''ATS0000''" by code_simp
  moreover have "regex_test emp_id_lookup_re ''SAT0001''" by code_simp
  moreover have "\<not> regex_test emp_id_re ''SAT0001''" by code_simp
  moreover have "get_tasks (JStr s) db = respond 400 (Error ''Invalid employee ID format'') \<longleftrightarrow>
      s \<noteq> [] \<and> \<not> regex_test emp_id_re s"
    using get_tasks_400_iff [of "JStr s" db] by simp
  moreover have
    "get_task_history (JStr s) db = respond 400 (Error ''Invalid employee ID format'') \<longleftrightarrow>
      s \<noteq> [] \<and> \<not> regex_test emp_id_re s"
    using get_task_history_400_iff [of "JStr s" db] by simp
  moreover have "filter_params (JStr s) = Inr [] \<longleftrightarrow> s = []"
    by (simp add: filter_params_cases)
  moreover have "history_payload_ok b \<and> upload_single part = Inr doc \<longrightarrow>
      (status_code (fst (post_task_history_route (b\<lparr>employeeId := JStr s\<rparr>) part ts db)) = 400
         \<longleftrightarrow> \<not> regex_test emp_id_re s)"
    using post_task_history_id_400_iff [of b s doc ts db]
    by (simp add: post_task_history_route_def)
  ultimately show ?thesis
    using emp_id_lookup_re_iff [of s] emp_id_re_iff [of s] get_employee_400_iff [of s db]
      filter_params_accepts_iff [of s] post_tasks_id_400_iff [of b e s now ts db]
    by blast
qed

text \<open>An instance: the boundary string \<open>ATS0000\<close> at each endpoint, on a freshly
  initialised store.\<close>

theorem employee_id_predicates_witness:
  "get_employee ''ATS0000'' (create_tables empty_database) =
     respond 400 (Error ''Invalid employee ID format'') \<and>
   filter_params (JStr ''ATS0000'') = Inr [JStr ''ATS0000''] \<and>
   get_tasks (JStr ''ATS0000'') (create_tables empty_database) \<noteq>
     respond 400 (Error ''Invalid employee ID format'') \<and>
   get_task_history (JStr ''ATS0000'') (create_tables empty_database) \<noteq>
     respond 400 (Error ''Invalid employee ID format'') \<and>
   status_code (fst (post_tasks sample_engine (example_body\<lparr>employeeId := JStr ''ATS0000''\<rparr>)
     42 7 (create_tables empty_database))) \<noteq> 400 \<and>
   status_code (fst (post_task_history_route (example_body\<lparr>employeeId := JStr ''ATS0000''\<rparr>)
     None 7 (create_tables empty_database))) \<noteq> 400"
proof -
  have ok: "tasks_payload_ok example_body \<and> history_payload_ok example_body \<and>
      upload_single None = Inr None"
    by code_simp
  show ?thesis
    using ok
      employee_id_predicates [where s = "''ATS0000''" and db = "create_tables empty_database"
        and b = example_body and e = sample_engine and now = 42 and ts = 7 and part = None
        and doc = None]
    by blast
qed

text \<open>C3 as stated fails at the listing endpoints: the empty string does not match
  \<open>^ATS0\\d{3}$\<close>, and both accept it, answering 200 with every row of the table.\<close>

theorem listing_accepts_empty_employee_id_counterexample:
  "\<not> regex_test emp_id_re [] \<and>
   get_tasks (JStr []) example_tasks_db = respond 200 (Tasks [example_task2, example_task]) \<and>
   get_task_history (JStr []) example_history_db =
     respond 200 (Histories [meta_of example_history,
       meta_of (example_history\<lparr>h_id := 2, h_upload_doc := None\<rparr>)])"
  by code_simp


section \<open>Properties of the column input\<close>

lemma text_in_Some: "text_in s = Some v \<longleftrightarrow> CHR 0x00 \<notin> set s \<and> v = s"
  by (auto simp: text_in_def)

lemma varchar_in_short:
  "length s \<le> n \<Longrightarrow> varchar_in n s = Some v \<longleftrightarrow> CHR 0x00 \<notin> set s \<and> v = s"
  by (auto simp: varchar_in_def)

lemma varchar_in_cases:
  "varchar_in n s = Some v \<longleftrightarrow>
     CHR 0x00 \<notin> set s \<and>
     (if length s \<le> n then v = s
      else list_all (\<lambda>c. c = CHR '' '') (drop n s) \<and> v = take n s)"
  by (auto simp: varchar_in_def)

lemma varchar_in_length: "varchar_in n s = Some v \<Longrightarrow> length v \<le> n"
  by (auto simp: varchar_in_cases split: if_splits)

lemma varchar_in_last:
  assumes "varchar_in n s = Some v" and "s \<noteq> []" and "last s \<noteq> CHR '' ''"
  shows "v = s"
proof (cases "length s \<le> n")
  case True
  with assms(1) show ?thesis by (simp add: varchar_in_short)
next
  case False
  then have ne: "drop n s \<noteq> []" by simp
  from assms(1) False have "list_all (\<lambda>c. c = CHR '' '') (drop n s)"
    by (simp add: varchar_in_cases)
  moreover have "last (drop n s) \<in> set (drop n s)" using ne by (rule last_in_set)
  ultimately have "last (drop n s) = CHR '' ''" by (simp add: list_all_iff)
  moreover have "last (drop n s) = last s" using False by simp
  ultimately show ?thesis using assms(3) by simp
qed

lemma digit_char_neq_space: "d < 10 \<Longrightarrow> digit_char d \<noteq> CHR '' ''"
proof
  assume d: "d < 10" and "digit_char d = CHR '' ''"
  then have "(of_char (char_of (48 + d)) :: nat) = of_char CHR '' ''"
    by (simp add: digit_char_def)
  then have "(48 + d) mod 256 = 32" by simp
  with d show False by simp
qed

lemma show_nat_last: "show_nat n \<noteq> [] \<and> last (show_nat n) \<noteq> CHR '' ''"
  by (subst (1 2) show_nat.simps) (simp add: digit_char_neq_space)

lemma varchar_in_show_nat: "varchar_in k (show_nat n) = Some v \<Longrightarrow> v = show_nat n"
  using show_nat_last [of n] by (blast intro: varchar_in_last)






section \<open>The POST handlers: validation before storage\<close>

lemma pg_text_truthy: "truthy v \<Longrightarrow> pg_text v = Some (to_string v)"
  by (cases v) simp_all

lemma truthy_js_or: "truthy d \<Longrightarrow> truthy (js_or v d)"
  by (simp add: js_or_def)

lemma refused_Some: "refused f (Some s) \<longleftrightarrow> f s = None"
  by (simp add: refused_def)

lemma stored_Some: "stored f (Some s) = the (f s)"
  by (simp add: stored_def)

lemma insert_task_Some:
  "insert_task e (Some p1) (Some p2) (Some p3) (Some p4) (Some p5) (Some p6) (Some p7)
     (Some p8) (Some p9) ts db =
     (case tasks db of
        None \<Rightarrow> Inl UndefinedTable
      | Some t \<Rightarrow>
          if varchar_in 255 p1 = None \<or> varchar_in 100 p2 = None \<or> varchar_in 100 p3 = None \<or>
             varchar_in 7 p4 = None \<or> varchar_in 100 p5 = None \<or> text_in p6 = None \<or>
             date_param e p7 = None \<or> date_param e p8 = None \<or> varchar_in 20 p9 = None
          then Inl DataException
          else if the (varchar_in 255 p1) \<in> set (map t_id (rows t)) then Inl UniqueViolation
          else
            Inr (\<lparr>t_id = the (varchar_in 255 p1), t_task_name = the (varchar_in 100 p2),
                   t_employee_name = the (varchar_in 100 p3),
                   t_employee_id = the (varchar_in 7 p4), t_email = the (varchar_in 100 p5),
                   t_task_description = the (text_in p6),
                   t_allocated_date = the (date_param e p7),
                   t_deadline = the (date_param e p8), t_status = the (varchar_in 20 p9),
                   t_created_at = ts\<rparr>,
                 db\<lparr>tasks := Some (t\<lparr>rows := rows t @
                   [\<lparr>t_id = the (varchar_in 255 p1), t_task_name = the (varchar_in 100 p2),
                     t_employee_name = the (varchar_in 100 p3),
                     t_employee_id = the (varchar_in 7 p4), t_email = the (varchar_in 100 p5),
                     t_task_description = the (text_in p6),
                     t_allocated_date = the (date_param e p7),
                     t_deadline = the (date_param e p8), t_status = the (varchar_in 20 p9),
                     t_created_at = ts\<rparr>]\<rparr>)\<rparr>))"
  by (cases "tasks db") (auto simp: insert_task_def Let_def refused_Some stored_Some)

lemma post_tasks_valid:
  assumes "tasks_payload_ok b"
  shows "post_tasks e b now ts db =
     (case tasks db of
        None \<Rightarrow> (respond 500 (Error ''Failed to save task''), db)
      | Some t \<Rightarrow>
          if \<not> task_accepted e b now then (respond 500 (Error ''Failed to save task''), db)
          else if t_id (task_of e b now ts) \<in> set (map t_id (rows t)) then
            (respond 500 (Error ''Failed to save task''), db)
          else (respond 200 (Task (task_of e b now ts)),
                db\<lparr>tasks := Some (t\<lparr>rows := rows t @ [task_of e b now ts]\<rparr>)\<rparr>))"
proof -
  from assms have p: "truthy (taskName b)" "truthy (employeeName b)" "truthy (employeeId b)"
      "truthy (email b)" "truthy (taskDescription b)" "truthy (allocatedDate b)"
      "truthy (deadline b)" "regex_test email_re (to_string (email b))"
      "regex_test emp_id_re (to_string (employeeId b))"
    by (simp_all add: tasks_payload_ok_def tasks_fields_present_def)
  have s: "truthy (js_or (status b) (JStr ''assigned''))" by (simp add: truthy_js_or)
  have q: "pg_text (taskName b) = Some (to_string (taskName b))"
      "pg_text (employeeName b) = Some (to_string (employeeName b))"
      "pg_text (employeeId b) = Some (to_string (employeeId b))"
      "pg_text (email b) = Some (to_string (email b))"
      "pg_text (taskDescription b) = Some (to_string (taskDescription b))"
      "pg_text (allocatedDate b) = Some (to_string (allocatedDate b))"
      "pg_text (deadline b) = Some (to_string (deadline b))"
      "pg_text (js_or (status b) (JStr ''assigned'')) =
         Some (to_string (js_or (status b) (JStr ''assigned'')))"
    using p s by (simp_all add: pg_text_truthy)
  have "post_tasks e b now ts db =
     (case insert_task e (Some (show_nat now)) (Some (to_string (taskName b)))
                (Some (to_string (employeeName b))) (Some (to_string (employeeId b)))
                (Some (to_string (email b))) (Some (to_string (taskDescription b)))
                (Some (to_string (allocatedDate b))) (Some (to_string (deadline b)))
                (Some (to_string (js_or (status b) (JStr ''assigned'')))) ts db of
           Inl err \<Rightarrow> (respond 500 (Error ''Failed to save task''), db)
         | Inr (r, db') \<Rightarrow> (respond 200 (Task r), db'))"
    unfolding post_tasks_def using p by (simp only: q simp_thms if_False)
  also have "\<dots> =
     (case tasks db of
        None \<Rightarrow> (respond 500 (Error ''Failed to save task''), db)
      | Some t \<Rightarrow>
          if \<not> task_accepted e b now then (respond 500 (Error ''Failed to save task''), db)
          else if t_id (task_of e b now ts) \<in> set (map t_id (rows t)) then
            (respond 500 (Error ''Failed to save task''), db)
          else (respond 200 (Task (task_of e b now ts)),
                db\<lparr>tasks := Some (t\<lparr>rows := rows t @ [task_of e b now ts]\<rparr>)\<rparr>))"
    unfolding insert_task_Some task_accepted_def task_of_def
    by (cases "tasks db") auto
  finally show ?thesis .
qed


lemma insert_history_Some:
  "insert_history (Some p1) (Some p2) (Some p3) (Some p4) (Some p5) doc (Some p7) ts db =
     (case task_history db of
        None \<Rightarrow> (Inl UndefinedTable, db)
      | Some t \<Rightarrow>
          if varchar_in 100 p1 = None \<or> varchar_in 100 p2 = None \<or> varchar_in 7 p3 = None \<or>
             varchar_in 100 p4 = None \<or> text_in p5 = None \<or> varchar_in 20 p7 = None
          then (Inl DataException, db)
          else if 2147483647 \<le> serial t then (Inl SequenceExhausted, db)
          else if Suc (serial t) \<in> set (map h_id (rows t)) then
            (Inl UniqueViolation, db\<lparr>task_history := Some (t\<lparr>serial := Suc (serial t)\<rparr>)\<rparr>)
          else
            (Inr (meta_of \<lparr>h_id = Suc (serial t), h_task_name = the (varchar_in 100 p1),
                    h_employee_name = the (varchar_in 100 p2),
                    h_employee_id = the (varchar_in 7 p3), h_email = the (varchar_in 100 p4),
                    h_description = the (text_in p5), h_upload_doc = doc,
                    h_task_status = the (varchar_in 20 p7), h_allocated_time = ts\<rparr>),
             db\<lparr>task_history := Some (t\<lparr>serial := Suc (serial t), rows := rows t @
               [\<lparr>h_id = Suc (serial t), h_task_name = the (varchar_in 100 p1),
                 h_employee_name = the (varchar_in 100 p2),
                 h_employee_id = the (varchar_in 7 p3), h_email = the (varchar_in 100 p4),
                 h_description = the (text_in p5), h_upload_doc = doc,
                 h_task_status = the (varchar_in 20 p7), h_allocated_time = ts\<rparr>]\<rparr>)\<rparr>))"
  by (cases "task_history db")
    (auto simp: insert_history_def Let_def refused_Some stored_Some)

lemma post_task_history_valid:
  assumes "history_payload_ok b"
  shows "post_task_history b doc ts db =
     (case task_history db of
        None \<Rightarrow> (respond 500 (Error ''Failed to save task history''), db)
      | Some t \<Rightarrow>
          if \<not> history_accepted b \<or> 2147483647 \<le> serial t then
            (respond 500 (Error ''Failed to save task history''), db)
          else if Suc (serial t) \<in> set (map h_id (rows t)) then
            (respond 500 (Error ''Failed to save task history''),
             db\<lparr>task_history := Some (t\<lparr>serial := Suc (serial t)\<rparr>)\<rparr>)
          else (respond 200 (Saved (meta_of (history_of b doc ts (Suc (serial t))))),
                db\<lparr>task_history := Some (t\<lparr>serial := Suc (serial t),
                  rows := rows t @ [history_of b doc ts (Suc (serial t))]\<rparr>)\<rparr>))"
proof -
  from assms have p: "truthy (taskName b)" "truthy (employeeName b)" "truthy (employeeId b)"
      "truthy (email b)" "truthy (description b)" "truthy (taskStatus b)"
      "regex_test email_re (to_string (email b))"
      "regex_test emp_id_re (to_string (employeeId b))"
    by (simp_all add: history_payload_ok_def history_fields_present_def)
  have q: "pg_text (taskName b) = Some (to_string (taskName b))"
      "pg_text (employeeName b) = Some (to_string (employeeName b))"
      "pg_text (employeeId b) = Some (to_string (employeeId b))"
      "pg_text (email b) = Some (to_string (email b))"
      "pg_text (description b) = Some (to_string (description b))"
      "pg_text (taskStatus b) = Some (to_string (taskStatus b))"
    using p by (simp_all add: pg_text_truthy)
  have "post_task_history b doc ts db =
     (case insert_history (Some (to_string (taskName b))) (Some (to_string (employeeName b)))
                (Some (to_string (employeeId b))) (Some (to_string (email b)))
                (Some (to_string (description b))) doc (Some (to_string (taskStatus b)))
                ts db of
           (Inl err, db') \<Rightarrow> (respond 500 (Error ''Failed to save task history''), db')
         | (Inr m, db') \<Rightarrow> (respond 200 (Saved m), db'))"
    unfolding post_task_history_def Let_def using p by (simp only: q simp_thms if_False)
  also have "\<dots> =
     (case task_history db of
        None \<Rightarrow> (respond 500 (Error ''Failed to save task history''), db)
      | Some t \<Rightarrow>
          if \<not> history_accepted b \<or> 2147483647 \<le> serial t then
            (respond 500 (Error ''Failed to save task history''), db)
          else if Suc (serial t) \<in> set (map h_id (rows t)) then
            (respond 500 (Error ''Failed to save task history''),
             db\<lparr>task_history := Some (t\<lparr>serial := Suc (serial t)\<rparr>)\<rparr>)
          else (respond 200 (Saved (meta_of (history_of b doc ts (Suc (serial t))))),
                db\<lparr>task_history := Some (t\<lparr>serial := Suc (serial t),
                  rows := rows t @ [history_of b doc ts (Suc (serial t))]\<rparr>)\<rparr>))"
    unfolding insert_history_Some history_accepted_def history_of_def
    by (cases "task_history db") auto
  finally show ?thesis .
qed




lemma upload_single_cases:
  "upload_single part =
     (case part of
        None \<Rightarrow> Inr None
      | Some f \<Rightarrow>
          if fieldname f = ''uploadDoc'' \<and> mimetype f \<in> set allowedTypes \<and>
             length (buffer f) \<le> 5 * 1024 * 1024 then Inr (Some (buffer f))
          else Inl (if fieldname f \<noteq> ''uploadDoc'' then LIMIT_UNEXPECTED_FILE
                    else if mimetype f \<notin> set allowedTypes then Invalid_file_type
                    else LIMIT_FILE_SIZE))"
  by (simp add: upload_single_def split: option.splits)







section \<open>POST /api/tasks: the default status\<close>

lemma falsy_status_assigned:
  "\<not> truthy v \<Longrightarrow> to_string (js_or v (JStr ''assigned'')) = ''assigned''"
  by (simp add: js_or_def)

lemma truthy_status_kept:
  "truthy v \<Longrightarrow> to_string (js_or v (JStr ''assigned'')) = to_string v"
  by (simp add: js_or_def)

lemma varchar_in_assigned: "varchar_in 20 ''assigned'' = Some ''assigned''"
  by (simp add: varchar_in_def)

lemma task_of_id: "task_accepted e b now \<Longrightarrow> t_id (task_of e b now ts) = show_nat now"
  by (auto simp: task_accepted_def task_of_def dest: varchar_in_show_nat)

lemma post_tasks_200:
  assumes ok: "tasks_payload_ok b" and r: "post_tasks e b now ts db = (resp, db')"
    and c: "status_code resp = 200"
  shows "\<exists>t. tasks db = Some t \<and> task_accepted e b now \<and>
     show_nat now \<notin> set (map t_id (rows t)) \<and>
     resp = respond 200 (Task (task_of e b now ts)) \<and>
     db' = db\<lparr>tasks := Some (t\<lparr>rows := rows t @ [task_of e b now ts]\<rparr>)\<rparr>"
proof (cases "tasks db")
  case None
  with r c show ?thesis by (auto simp: post_tasks_valid [OF ok] respond_def)
next
  case (Some t)
  from r c have acc: "task_accepted e b now"
    unfolding post_tasks_valid [OF ok] Some by (auto simp: respond_def split: if_splits)
  from r c acc have
    "t_id (task_of e b now ts) \<notin> set (map t_id (rows t)) \<and>
     resp = respond 200 (Task (task_of e b now ts)) \<and>
     db' = db\<lparr>tasks := Some (t\<lparr>rows := rows t @ [task_of e b now ts]\<rparr>)\<rparr>"
    unfolding post_tasks_valid [OF ok] Some by (auto simp: respond_def split: if_splits)
  then show ?thesis using Some acc task_of_id [OF acc, of ts] by simp
qed

lemma post_tasks_inserts:
  assumes "tasks_payload_ok b" and "tasks db = Some t" and "task_accepted e b now"
    and "show_nat now \<notin> set (map t_id (rows t))"
  shows "post_tasks e b now ts db =
     (respond 200 (Task (task_of e b now ts)),
      db\<lparr>tasks := Some (t\<lparr>rows := rows t @ [task_of e b now ts]\<rparr>)\<rparr>)"
  using assms by (simp add: post_tasks_valid task_of_id)


lemma task_of_status:
  assumes "task_accepted e b now"
  shows "varchar_in 20 (to_string (js_or (status b) (JStr ''assigned''))) =
     Some (t_status (task_of e b now ts))"
  using assms by (auto simp: task_accepted_def task_of_def)

text \<open>
  C10. In POST /api/tasks the row is written with \<open>status || 'assigned'\<close>: whenever the
  request passes the checks and its \<open>status\<close> is falsy (absent, \<open>null\<close>, \<open>false\<close>, \<open>0\<close> or the
  empty string), every row the handler inserts has status \<open>assigned\<close>, and it is the row
  returned and appended to the table. A truthy status is stored in its string form, as
  the column VARCHAR(20) reads it: unchanged when it has at most 20 characters. The
  handler does insert when the table exists, the store reads every parameter into its
  column and the id is new.
\<close>

theorem falsy_status_defaults_to_assigned:
  "\<not> truthy JUndefined \<and> \<not> truthy JNull \<and> \<not> truthy (JBool False) \<and> \<not> truthy (JNum 0) \<and>
   \<not> truthy (JStr []) \<and>
   (tasks_payload_ok b \<and> post_tasks e b now ts db = (resp, db') \<and> status_code resp = 200 \<longrightarrow>
      (\<exists>r t. resp = respond 200 (Task r) \<and> tasks db = Some t \<and>
         db' = db\<lparr>tasks := Some (t\<lparr>rows := rows t @ [r]\<rparr>)\<rparr> \<and>
         (\<not> truthy (status b) \<longrightarrow> t_status r = ''assigned'') \<and>
         (truthy (status b) \<longrightarrow> varchar_in 20 (to_string (status b)) = Some (t_status r)) \<and>
         (truthy (status b) \<and> length (to_string (status b)) \<le> 20 \<longrightarrow>
            t_status r = to_string (status b)))) \<and>
   (tasks_payload_ok b \<and> tasks db = Some t \<and> task_accepted e b now \<and>
    show_nat now \<notin> set (map t_id (rows t)) \<longrightarrow>
      status_code (fst (post_tasks e b now ts db)) = 200)"
proof (intro conjI impI)
  assume a: "tasks_payload_ok b \<and> post_tasks e b now ts db = (resp, db') \<and>
    status_code resp = 200"
  then obtain t where t: "tasks db = Some t" "task_accepted e b now"
      "resp = respond 200 (Task (task_of e b now ts))"
      "db' = db\<lparr>tasks := Some (t\<lparr>rows := rows t @ [task_of e b now ts]\<rparr>)\<rparr>"
    using post_tasks_200 [of b e now ts db resp db'] by blast
  note st = task_of_status [OF t(2), of ts]
  have "\<not> truthy (status b) \<longrightarrow> t_status (task_of e b now ts) = ''assigned''"
    using st by (auto simp: falsy_status_assigned varchar_in_assigned)
  moreover have "truthy (status b) \<longrightarrow>
      varchar_in 20 (to_string (status b)) = Some (t_status (task_of e b now ts))"
    using st by (auto simp: truthy_status_kept)
  moreover have "truthy (status b) \<and> length (to_string (status b)) \<le> 20 \<longrightarrow>
      t_status (task_of e b now ts) = to_string (status b)"
    using st by (auto simp: truthy_status_kept varchar_in_short)
  ultimately show "\<exists>r t. resp = respond 200 (Task r) \<and> tasks db = Some t \<and>
         db' = db\<lparr>tasks := Some (t\<lparr>rows := rows t @ [r]\<rparr>)\<rparr> \<and>
         (\<not> truthy (status b) \<longrightarrow> t_status r = ''assigned'') \<and>
         (truthy (status b) \<longrightarrow> varchar_in 20 (to_string (status b)) = Some (t_status r)) \<and>
         (truthy (status b) \<and> length (to_string (status b)) \<le> 20 \<longrightarrow>
            t_status r = to_string (status b))"
    using t by blast
next
  assume "tasks_payload_ok b \<and> tasks db = Some t \<and> task_accepted e b now \<and>
    show_nat now \<notin> set (map t_id (rows t))"
  then show "status_code (fst (post_tasks e b now ts db)) = 200"
    by (simp add: post_tasks_inserts respond_def)
qed simp_all

lemma tasks_after_create_tables:
  "tasks (create_tables empty_database) = Some \<lparr>columns = tasks_columns, rows = [], serial = 0\<rparr>"
  by (simp add: create_tables_def empty_database_def create_table_if_not_exists_def)

lemma task_accepted_status:
  "task_accepted e b now \<Longrightarrow> varchar_in 20 (to_string (js_or v (JStr ''assigned''))) \<noteq> None \<Longrightarrow>
   task_accepted e (b\<lparr>status := v\<rparr>) now"
  by (simp add: task_accepted_def)

text \<open>Instances: the sample request with status \<open>''\<close>, \<open>0\<close> and \<open>null\<close>, on a freshly
  initialised store.\<close>

theorem falsy_status_defaults_to_assigned_witness:
  "(\<exists>r. fst (post_tasks sample_engine (example_body\<lparr>status := JStr []\<rparr>) 42 7
             (create_tables empty_database)) = respond 200 (Task r) \<and>
        t_status r = ''assigned'') \<and>
   (\<exists>r. fst (post_tasks sample_engine (example_body\<lparr>status := JNum 0\<rparr>) 42 7
             (create_tables empty_database)) = respond 200 (Task r) \<and>
        t_status r = ''assigned'') \<and>
   (\<exists>r. fst (post_tasks sample_engine (example_body\<lparr>status := JNull\<rparr>) 42 7
             (create_tables empty_database)) = respond 200 (Task r) \<and>
        t_status r = ''assigned'')"
proof -
  have inst: "\<exists>r. fst (post_tasks sample_engine (example_body\<lparr>status := v\<rparr>) 42 7
             (create_tables empty_database)) = respond 200 (Task r) \<and>
        t_status r = ''assigned''" if v: "\<not> truthy v" for v
  proof -
    have "tasks_payload_ok example_body" by code_simp
    then have ok: "tasks_payload_ok (example_body\<lparr>status := v\<rparr>)"
      by (simp add: tasks_payload_ok_def tasks_fields_present_def)
    have "task_accepted sample_engine example_body 42" by code_simp
    then have acc: "task_accepted sample_engine (example_body\<lparr>status := v\<rparr>) 42"
      using v by (simp add: task_accepted_status falsy_status_assigned varchar_in_assigned)
    have fresh: "show_nat 42 \<notin> set (map t_id (rows \<lparr>columns = tasks_columns, rows = [], serial = 0\<rparr>))"
      by simp
    have falsy: "\<not> truthy (status (example_body\<lparr>status := v\<rparr>))" using v by simp
    have c: "status_code (fst (post_tasks sample_engine (example_body\<lparr>status := v\<rparr>) 42 7
        (create_tables empty_database))) = 200"
      using ok acc tasks_after_create_tables fresh
        falsy_status_defaults_to_assigned [where b = "example_body\<lparr>status := v\<rparr>"
          and e = sample_engine and now = 42 and ts = 7
          and db = "create_tables empty_database"
          and t = "\<lparr>columns = tasks_columns, rows = [], serial = 0\<rparr>"]
      by blast
    show ?thesis
      using ok c falsy
        falsy_status_defaults_to_assigned [where b = "example_body\<lparr>status := v\<rparr>"
          and e = sample_engine and now = 42 and ts = 7
          and db = "create_tables empty_database"
          and resp = "fst (post_tasks sample_engine (example_body\<lparr>status := v\<rparr>) 42 7
            (create_tables empty_database))"
          and db' = "snd (post_tasks sample_engine (example_body\<lparr>status := v\<rparr>) 42 7
            (create_tables empty_database))"]
      by (metis prod.collapse)
  qed
  show ?thesis using inst [of "JStr []"] inst [of "JNum 0"] inst [of JNull] by simp
qed


section \<open>POST /api/tasks then GET /api/tasks/:id\<close>








section \<open>GET /api/task-history/:id/file: not found\<close>

lemma case_filter_find:
  "(case filter P xs of [] \<Rightarrow> a | r # _ \<Rightarrow> f r) = (case find P xs of None \<Rightarrow> a | Some r \<Rightarrow> f r)"
  by (induction xs) auto

lemma select_history_by_id_read:
  assumes "task_history db = Some t" and "CHR 0x00 \<notin> set ident" and "int4_in e ident = Some n"
  shows "select_history_by_id e ident db = Inr (filter (\<lambda>r. int (h_id r) = n) (rows t))"
  using assms by (simp add: select_history_by_id_def text_in_def)

lemma select_history_by_id_fails:
  "(\<exists>err. select_history_by_id e ident db = Inl err) \<longleftrightarrow>
     task_history db = None \<or> CHR 0x00 \<in> set ident \<or> int4_in e ident = None"
  by (auto simp: select_history_by_id_def text_in_def split: option.splits)

lemma get_task_history_file_find:
  assumes "task_history db = Some t" and "CHR 0x00 \<notin> set ident" and "int4_in e ident = Some n"
  shows "get_task_history_file e ident db =
     (case find (\<lambda>r. int (h_id r) = n) (rows t) of
        None \<Rightarrow> respond 404 (Error ''File not found'')
      | Some r \<Rightarrow>
          (case h_upload_doc r of
             None \<Rightarrow> respond 404 (Error ''File not found'')
           | Some fileBuffer \<Rightarrow> respond 200 (File (sniff fileBuffer) fileBuffer)))"
  by (simp add: get_task_history_file_def select_history_by_id_read [OF assms]
        case_filter_find)

lemma get_task_history_file_500:
  "get_task_history_file e ident db = respond 500 (Error ''Failed to retrieve file'') \<longleftrightarrow>
     task_history db = None \<or> CHR 0x00 \<in> set ident \<or> int4_in e ident = None"
proof (cases "task_history db = None \<or> CHR 0x00 \<in> set ident \<or> int4_in e ident = None")
  case True
  then obtain err where "select_history_by_id e ident db = Inl err"
    using select_history_by_id_fails [of e ident db] by blast
  with True show ?thesis by (simp add: get_task_history_file_def)
next
  case False
  then obtain t n where r: "task_history db = Some t" "CHR 0x00 \<notin> set ident"
      "int4_in e ident = Some n"
    by auto
  show ?thesis
    using False unfolding get_task_history_file_find [OF r]
    by (auto simp: respond_def split: option.splits)
qed

lemma find_distinct_ids:
  assumes "distinct (map h_id (rows t))" and "r \<in> set (rows t)" and "int (h_id r) = n"
  shows "find (\<lambda>x. int (h_id x) = n) (rows t) = Some r"
proof -
  obtain x where x: "find (\<lambda>x. int (h_id x) = n) (rows t) = Some x"
    using assms(2,3) by (cases "find (\<lambda>x. int (h_id x) = n) (rows t)") (auto simp: find_None_iff)
  then have "x \<in> set (rows t)" "int (h_id x) = n"
    by (auto simp: find_Some_iff)
  with assms have "x \<in> set (rows t)" "h_id x = h_id r" by simp_all
  with assms have "x = r" by (metis distinct_map inj_onD)
  with x show ?thesis by simp
qed

lemma select_history_fresh:
  assumes "h_id r \<notin> set (map h_id (rows t))" and "CHR 0x00 \<notin> set ident"
    and "int4_in e ident = Some (int (h_id r))"
  shows "select_history_by_id e ident
           (db\<lparr>task_history := Some (t\<lparr>serial := n, rows := rows t @ [r]\<rparr>)\<rparr>) = Inr [r]"
proof -
  have "h_id x \<noteq> h_id r" if "x \<in> set (rows t)" for x
  proof
    assume "h_id x = h_id r"
    moreover from that have "h_id x \<in> set (map h_id (rows t))" by simp
    ultimately show False using assms(1) by simp
  qed
  then have "filter (\<lambda>x. h_id x = h_id r) (rows t) = []"
    by (simp add: filter_empty_conv)
  then show ?thesis using assms(2,3) by (simp add: select_history_by_id_def text_in_def)
qed

lemma post_task_history_200:
  assumes ok: "history_payload_ok b" and r: "post_task_history b doc ts db = (resp, db')"
    and c: "status_code resp = 200"
  shows "\<exists>t. task_history db = Some t \<and> Suc (serial t) \<notin> set (map h_id (rows t)) \<and>
     resp = respond 200 (Saved (meta_of (history_of b doc ts (Suc (serial t))))) \<and>
     db' = db\<lparr>task_history := Some (t\<lparr>serial := Suc (serial t),
             rows := rows t @ [history_of b doc ts (Suc (serial t))]\<rparr>)\<rparr>"
  using r c unfolding post_task_history_valid [OF ok]
  by (cases "task_history db") (auto simp: respond_def split: if_splits)

lemma history_404_iff_find:
  "get_task_history_file e ident db = respond 404 (Error ''File not found'') \<longleftrightarrow>
     (\<exists>t n. task_history db = Some t \<and> CHR 0x00 \<notin> set ident \<and> int4_in e ident = Some n \<and>
        (case find (\<lambda>r. int (h_id r) = n) (rows t) of
           None \<Rightarrow> True
         | Some r \<Rightarrow> h_upload_doc r = None))"
proof (cases "task_history db = None \<or> CHR 0x00 \<in> set ident \<or> int4_in e ident = None")
  case True
  then have "get_task_history_file e ident db = respond 500 (Error ''Failed to retrieve file'')"
    by (simp add: get_task_history_file_500)
  with True show ?thesis by (auto simp: respond_def)
next
  case False
  then obtain t n where r: "task_history db = Some t" "CHR 0x00 \<notin> set ident"
      "int4_in e ident = Some n"
    by auto
  show ?thesis
    unfolding get_task_history_file_find [OF r] using r
    by (auto simp: respond_def split: option.splits)
qed

lemma history_404_iff_no_document:
  assumes t: "task_history db = Some t" and d: "distinct (map h_id (rows t))"
    and z: "CHR 0x00 \<notin> set ident" and n: "int4_in e ident = Some n"
  shows "status_code (get_task_history_file e ident db) = 404 \<longleftrightarrow>
     (\<forall>r\<in>set (rows t). int (h_id r) = n \<longrightarrow> h_upload_doc r = None)"
proof (cases "find (\<lambda>r. int (h_id r) = n) (rows t)")
  case None
  then have "\<forall>r\<in>set (rows t). int (h_id r) \<noteq> n" by (simp add: find_None_iff)
  with None show ?thesis
    unfolding get_task_history_file_find [OF t z n] by (auto simp: respond_def)
next
  case (Some r)
  then have r: "r \<in> set (rows t)" "int (h_id r) = n" by (auto simp: find_Some_iff)
  have only: "x = r" if "x \<in> set (rows t)" "int (h_id x) = n" for x
    using find_distinct_ids [OF d that] Some by simp
  show ?thesis
  proof (cases "h_upload_doc r")
    case None
    with Some only show ?thesis
      unfolding get_task_history_file_find [OF t z n] by (auto simp: respond_def)
  next
    case (Some doc)
    with \<open>find (\<lambda>r. int (h_id r) = n) (rows t) = Some r\<close> r show ?thesis
      unfolding get_task_history_file_find [OF t z n] by (auto simp: respond_def)
  qed
qed

lemma history_without_file_then_404:
  assumes ok: "history_payload_ok b" and th: "task_history db = Some t"
    and p: "post_task_history b None ts db = (resp, db')"
    and c: "status_code resp = 200"
    and z: "CHR 0x00 \<notin> set ident" and n: "int4_in e ident = Some (int (Suc (serial t)))"
  shows "\<exists>m. resp = respond 200 (Saved m) \<and> \<not> m_has_file m \<and> m_id m = Suc (serial t) \<and>
     get_task_history_file e ident db' = respond 404 (Error ''File not found'')"
proof -
  from post_task_history_200 [OF ok p c] th
  have t: "Suc (serial t) \<notin> set (map h_id (rows t))"
      "resp = respond 200 (Saved (meta_of (history_of b None ts (Suc (serial t)))))"
      "db' = db\<lparr>task_history := Some (t\<lparr>serial := Suc (serial t),
             rows := rows t @ [history_of b None ts (Suc (serial t))]\<rparr>)\<rparr>"
    by simp_all
  define r where "r = history_of b None ts (Suc (serial t))"
  have id: "h_id r = Suc (serial t)" and doc: "h_upload_doc r = None"
    by (simp_all add: r_def history_of_def)
  have "h_id r \<notin> set (map h_id (rows t))" using t(1) id by metis
  moreover have "int4_in e ident = Some (int (h_id r))" using n id by simp
  ultimately have "select_history_by_id e ident db' = Inr [r]"
    unfolding t(3) r_def [symmetric] using z by (intro select_history_fresh)
  then have "get_task_history_file e ident db' = respond 404 (Error ''File not found'')"
    by (simp add: get_task_history_file_def doc)
  moreover have "m_id (meta_of r) = Suc (serial t)" "\<not> m_has_file (meta_of r)"
    by (simp_all add: meta_of_def doc id)
  ultimately show ?thesis using t(2) unfolding r_def [symmetric] by metis
qed

text \<open>
  C8 (as amended). The \<open>id\<close> of the path reaches the query as a text, which the store has
  to read as an INTEGER. GET /api/task-history/:id/file answers 404 \<open>File not found\<close>
  exactly when the table exists, the store reads the text as a number and either no row
  has that number as its id or the row that has it holds no document; under the primary
  key, exactly when no row with that number holds a document. It answers 500 exactly
  when the table is missing or the store does not read the text as an INTEGER, which is
  so for \<open>abc\<close> and for \<open>2147483648\<close>. Otherwise it answers 200 with the document and the
  sniffed content type. A request to POST /api/task-history that passes the checks and
  carries no file, when answered 200, reports \<open>has_file: false\<close> and the number of the
  new record, and the file of that record is then answered 404. The POST is answered 200
  when the table exists, the store reads every parameter into its column, and the
  sequence has a next number, which is unused.
\<close>

theorem history_file_not_found:
  "(get_task_history_file e ident db = respond 404 (Error ''File not found'') \<longleftrightarrow>
      (\<exists>t n. task_history db = Some t \<and> CHR 0x00 \<notin> set ident \<and> int4_in e ident = Some n \<and>
         (case find (\<lambda>r. int (h_id r) = n) (rows t) of
            None \<Rightarrow> True
          | Some r \<Rightarrow> h_upload_doc r = None))) \<and>
   (get_task_history_file e ident db = respond 500 (Error ''Failed to retrieve file'') \<longleftrightarrow>
      task_history db = None \<or> CHR 0x00 \<in> set ident \<or> int4_in e ident = None) \<and>
   (task_history db = Some t \<and> distinct (map h_id (rows t)) \<and> CHR 0x00 \<notin> set ident \<and>
    int4_in e ident = Some n \<longrightarrow>
      (status_code (get_task_history_file e ident db) = 404 \<longleftrightarrow>
         (\<forall>r\<in>set (rows t). int (h_id r) = n \<longrightarrow> h_upload_doc r = None))) \<and>
   (task_history db = Some t \<and> CHR 0x00 \<notin> set ident \<and> int4_in e ident = Some n \<and>
    find (\<lambda>r. int (h_id r) = n) (rows t) = Some r \<and> h_upload_doc r = Some doc \<longrightarrow>
      get_task_history_file e ident db = respond 200 (File (sniff doc) doc)) \<and>
   (history_payload_ok b \<and> task_history db = Some t \<and>
    post_task_history_route b None ts db = (resp, db') \<and> status_code resp = 200 \<and>
    CHR 0x00 \<notin> set ident \<and> int4_in e ident = Some (int (Suc (serial t))) \<longrightarrow>
      (\<exists>m. resp = respond 200 (Saved m) \<and> \<not> m_has_file m \<and> m_id m = Suc (serial t) \<and>
         get_task_history_file e ident db' = respond 404 (Error ''File not found''))) \<and>
   (history_payload_ok b \<and> task_history db = Some t \<and> history_accepted b \<and>
    serial t < 2147483647 \<and> Suc (serial t) \<notin> set (map h_id (rows t)) \<longrightarrow>
      status_code (fst (post_task_history_route b None ts db)) = 200)"
proof (intro conjI impI)
  show "get_task_history_file e ident db = respond 404 (Error ''File not found'') \<longleftrightarrow>
      (\<exists>t n. task_history db = Some t \<and> CHR 0x00 \<notin> set ident \<and> int4_in e ident = Some n \<and>
         (case find (\<lambda>r. int (h_id r) = n) (rows t) of
            None \<Rightarrow> True
          | Some r \<Rightarrow> h_upload_doc r = None))"
    by (rule history_404_iff_find)
next
  show "get_task_history_file e ident db = respond 500 (Error ''Failed to retrieve file'') \<longleftrightarrow>
      task_history db = None \<or> CHR 0x00 \<in> set ident \<or> int4_in e ident = None"
    by (rule get_task_history_file_500)
next
  assume "task_history db = Some t \<and> distinct (map h_id (rows t)) \<and> CHR 0x00 \<notin> set ident \<and>
    int4_in e ident = Some n"
  then show "status_code (get_task_history_file e ident db) = 404 \<longleftrightarrow>
         (\<forall>r\<in>set (rows t). int (h_id r) = n \<longrightarrow> h_upload_doc r = None)"
    using history_404_iff_no_document [of db t ident e n] by blast
next
  assume "task_history db = Some t \<and> CHR 0x00 \<notin> set ident \<and> int4_in e ident = Some n \<and>
    find (\<lambda>r. int (h_id r) = n) (rows t) = Some r \<and> h_upload_doc r = Some doc"
  then show "get_task_history_file e ident db = respond 200 (File (sniff doc) doc)"
    by (simp add: get_task_history_file_find)
next
  assume a: "history_payload_ok b \<and> task_history db = Some t \<and>
    post_task_history_route b None ts db = (resp, db') \<and> status_code resp = 200 \<and>
    CHR 0x00 \<notin> set ident \<and> int4_in e ident = Some (int (Suc (serial t)))"
  have "post_task_history_route b None ts db = post_task_history b None ts db"
    by (simp add: post_task_history_route_def upload_single_def)
  with a show "\<exists>m. resp = respond 200 (Saved m) \<and> \<not> m_has_file m \<and> m_id m = Suc (serial t) \<and>
         get_task_history_file e ident db' = respond 404 (Error ''File not found'')"
    using history_without_file_then_404 [of b db t ts resp db' ident e] by simp
next
  assume "history_payload_ok b \<and> task_history db = Some t \<and> history_accepted b \<and>
    serial t < 2147483647 \<and> Suc (serial t) \<notin> set (map h_id (rows t))"
  then show "status_code (fst (post_task_history_route b None ts db)) = 200"
    by (simp add: post_task_history_route_def upload_single_def post_task_history_valid
          respond_def)
qed

lemma task_history_after_create_tables:
  "task_history (create_tables empty_database) =
     Some \<lparr>columns = task_history_columns, rows = [], serial = 0\<rparr>"
  by (simp add: create_tables_def empty_database_def create_table_if_not_exists_def)

text \<open>Instances: on a table with a record that has a document (id 1) and one that has
  none (id 2), the file of record 2 and of the absent record 5 are not found and the file of
  record 1 is served; and the sample request without a file, followed by the fetch of its
  file.\<close>

theorem history_file_not_found_witness:
  "get_task_history_file sample_engine ''2'' example_history_db =
     respond 404 (Error ''File not found'') \<and>
   get_task_history_file sample_engine ''5'' example_history_db =
     respond 404 (Error ''File not found'') \<and>
   status_code (get_task_history_file sample_engine ''1'' example_history_db) \<noteq> 404 \<and>
   (\<exists>m. fst (post_task_history_route example_body None 7 (create_tables empty_database)) =
          respond 200 (Saved m) \<and> \<not> m_has_file m \<and> m_id m = 1 \<and>
        get_task_history_file sample_engine ''1''
          (snd (post_task_history_route example_body None 7 (create_tables empty_database))) =
          respond 404 (Error ''File not found''))"
proof -
  define T where "T = \<lparr>columns = task_history_columns,
          rows = [example_history, example_history\<lparr>h_id := 2, h_upload_doc := None\<rparr>],
          serial = 2\<rparr>"
  let ?T0 = "\<lparr>columns = task_history_columns, rows = ([]::history list), serial = 0\<rparr>"
  let ?D = "create_tables empty_database"
  have th: "task_history example_history_db = Some T"
    by (simp add: example_history_db_def T_def)
  have rd: "CHR 0x00 \<notin> set ''1'' \<and> int4_in sample_engine ''1'' = Some 1 \<and>
      CHR 0x00 \<notin> set ''2'' \<and> int4_in sample_engine ''2'' = Some 2 \<and>
      CHR 0x00 \<notin> set ''5'' \<and> int4_in sample_engine ''5'' = Some 5"
    by code_simp
  have d: "distinct (map h_id (rows T))" by (simp add: T_def example_history_def)
  have f2: "(case find (\<lambda>r. int (h_id r) = 2) (rows T) of None \<Rightarrow> True
             | Some r \<Rightarrow> h_upload_doc r = None)"
    by (simp add: T_def example_history_def)
  have f5: "(case find (\<lambda>r. int (h_id r) = 5) (rows T) of None \<Rightarrow> True
             | Some r \<Rightarrow> h_upload_doc r = None)"
    by (simp add: T_def example_history_def)
  have f1: "\<not> (\<forall>r\<in>set (rows T). int (h_id r) = 1 \<longrightarrow> h_upload_doc r = None)"
    by (simp add: T_def example_history_def)
  have a: "get_task_history_file sample_engine ''2'' example_history_db =
      respond 404 (Error ''File not found'')"
    using th f2 rd
      history_file_not_found [where e = sample_engine and ident = "''2''"
        and db = example_history_db, THEN conjunct1]
    by blast
  have b: "get_task_history_file sample_engine ''5'' example_history_db =
      respond 404 (Error ''File not found'')"
    using th f5 rd
      history_file_not_found [where e = sample_engine and ident = "''5''"
        and db = example_history_db, THEN conjunct1]
    by blast
  have c: "status_code (get_task_history_file sample_engine ''1'' example_history_db) \<noteq> 404"
    using th d f1 rd
      history_file_not_found [where e = sample_engine and ident = "''1''"
        and db = example_history_db and t = T and n = 1,
        THEN conjunct2, THEN conjunct2, THEN conjunct1]
    by blast
  have ok: "history_payload_ok example_body \<and> history_accepted example_body" by code_simp
  have fresh: "serial ?T0 < 2147483647 \<and> Suc (serial ?T0) \<notin> set (map h_id (rows ?T0))"
    by simp
  have s200: "status_code (fst (post_task_history_route example_body None 7 ?D)) = 200"
    using ok fresh task_history_after_create_tables
      history_file_not_found [where db = ?D and t = ?T0 and b = example_body and ts = 7,
        THEN conjunct2, THEN conjunct2, THEN conjunct2, THEN conjunct2, THEN conjunct2]
    by blast
  have rd1: "CHR 0x00 \<notin> set ''1'' \<and>
      int4_in sample_engine ''1'' = Some (int (Suc (serial ?T0)))"
    using rd by simp
  have pc: "post_task_history_route example_body None 7 ?D =
      (fst (post_task_history_route example_body None 7 ?D),
       snd (post_task_history_route example_body None 7 ?D))"
    by simp
  have e: "\<exists>m. fst (post_task_history_route example_body None 7 ?D) =
          respond 200 (Saved m) \<and> \<not> m_has_file m \<and> m_id m = Suc (serial ?T0) \<and>
        get_task_history_file sample_engine ''1''
          (snd (post_task_history_route example_body None 7 ?D)) =
          respond 404 (Error ''File not found'')"
    using ok s200 rd1 task_history_after_create_tables pc
      history_file_not_found [where db = ?D and t = ?T0 and b = example_body and ts = 7
        and e = sample_engine and ident = "''1''"
        and resp = "fst (post_task_history_route example_body None 7 ?D)"
        and db' = "snd (post_task_history_route example_body None 7 ?D)",
        THEN conjunct2, THEN conjunct2, THEN conjunct2, THEN conjunct2, THEN conjunct1]
    by blast
  from a b c e show ?thesis by simp
qed

text \<open>C8 as stated fails on an \<open>id\<close> the store does not read as an INTEGER: no record of
  the sample table has the id \<open>2147483648\<close> or \<open>abc\<close>, and the answer to both is 500, not
  404.\<close>

theorem history_file_unreadable_id_counterexample:
  "map_option (\<lambda>t. map h_id (rows t)) (task_history example_history_db) = Some [1, 2] \<and>
   get_task_history_file sample_engine ''2147483648'' example_history_db =
     respond 500 (Error ''Failed to retrieve file'') \<and>
   get_task_history_file sample_engine ''abc'' example_history_db =
     respond 500 (Error ''Failed to retrieve file'')"
proof -
  have "sample_int4_in ''2147483648'' = None"
    by (simp add: sample_int4_in_def number_of_def is_digit_def Let_def)
  moreover have "sample_int4_in ''abc'' = None" by code_simp
  moreover have "task_history example_history_db \<noteq> None"
    by (simp add: example_history_db_def)
  moreover have
    "map_option (\<lambda>t. map h_id (rows t)) (task_history example_history_db) = Some [1, 2]"
    by (simp add: example_history_db_def example_history_def)
  ultimately show ?thesis
    by (simp add: get_task_history_file_def select_history_by_id_def text_in_def
          sample_engine_def split: option.splits)
qed


section \<open>GET /api/tasks: listing and filtering\<close>

lemma mset_insert_desc: "mset (insert_desc k x ys) = add_mset x (mset ys)"
  by (induction ys) auto

lemma set_insert_desc: "set (insert_desc k x ys) = insert x (set ys)"
  by (induction ys) auto

lemma sorted_insert_desc:
  "sorted_desc k ys \<Longrightarrow> sorted_desc k (insert_desc k x ys)"
  unfolding sorted_desc_def
  by (induction ys) (auto simp: set_insert_desc)

lemma mset_order_by_desc: "mset (order_by_desc k xs) = mset xs"
  unfolding order_by_desc_def by (induction xs) (auto simp: mset_insert_desc)

lemma sorted_order_by_desc: "sorted_desc k (order_by_desc k xs)"
proof (induction xs)
  case Nil
  show ?case by (simp add: order_by_desc_def sorted_desc_def)
next
  case (Cons x xs)
  then show ?case
    using sorted_insert_desc [of k "order_by_desc k xs" x] by (simp add: order_by_desc_def)
qed

lemma get_tasks_cases:
  "get_tasks e db =
     (if truthy e \<and> \<not> regex_test emp_id_re (to_string e) then
        respond 400 (Error ''Invalid employee ID format'')
      else
        (case tasks db of
           None \<Rightarrow> respond 500 (Error ''Failed to fetch tasks'')
         | Some t \<Rightarrow>
             respond 200
               (Tasks (order_by_desc t_created_at
                  (if truthy e then filter (\<lambda>r. t_employee_id r = to_string e) (rows t)
                   else rows t)))))"
  by (auto simp: get_tasks_def filter_params_cases select_tasks_def pg_text_truthy
           split: option.splits)

text \<open>
  C7 (as amended). On a store with its tasks table, GET /api/tasks without an \<open>employeeId\<close>,
  or with an empty one, answers 200 with all task rows ordered by \<open>created_at\<close> descending.
  A non-empty \<open>employeeId\<close> is tested against \<open>^ATS0\\d{3}$\<close> before any query: when it
  fails, the answer is 400 \<open>Invalid employee ID format\<close> whatever the store holds; when it
  passes, the answer is 200 with exactly the rows whose \<open>employee_id\<close> equals it, ordered by
  \<open>created_at\<close> descending.
\<close>

theorem get_tasks_lists_and_filters:
  "(tasks db = Some t \<and> \<not> truthy e \<longrightarrow>
      (\<exists>rs. get_tasks e db = respond 200 (Tasks rs) \<and> sorted_desc t_created_at rs \<and>
         mset rs = mset (rows t))) \<and>
   (truthy e \<and> \<not> regex_test emp_id_re (to_string e) \<longrightarrow>
      get_tasks e db = respond 400 (Error ''Invalid employee ID format'') \<and>
      get_tasks e db' = get_tasks e db) \<and>
   (tasks db = Some t \<and> truthy e \<and> regex_test emp_id_re (to_string e) \<longrightarrow>
      (\<exists>rs. get_tasks e db = respond 200 (Tasks rs) \<and> sorted_desc t_created_at rs \<and>
         mset rs = mset (filter (\<lambda>r. t_employee_id r = to_string e) (rows t)))) \<and>
   \<not> truthy JUndefined \<and> \<not> truthy (JStr []) \<and> (s \<noteq> [] \<longrightarrow> truthy (JStr s))"
proof (intro conjI impI)
  assume a: "tasks db = Some t \<and> \<not> truthy e"
  then have "get_tasks e db = respond 200 (Tasks (order_by_desc t_created_at (rows t)))"
    by (simp add: get_tasks_cases)
  then show "\<exists>rs. get_tasks e db = respond 200 (Tasks rs) \<and> sorted_desc t_created_at rs \<and>
         mset rs = mset (rows t)"
    using sorted_order_by_desc [of t_created_at "rows t"]
      mset_order_by_desc [of t_created_at "rows t"] by blast
next
  assume a: "truthy e \<and> \<not> regex_test emp_id_re (to_string e)"
  then show "get_tasks e db = respond 400 (Error ''Invalid employee ID format'')"
    by (simp add: get_tasks_cases)
  from a show "get_tasks e db' = get_tasks e db" by (simp add: get_tasks_cases)
next
  assume a: "tasks db = Some t \<and> truthy e \<and> regex_test emp_id_re (to_string e)"
  then have "get_tasks e db = respond 200 (Tasks (order_by_desc t_created_at
      (filter (\<lambda>r. t_employee_id r = to_string e) (rows t))))"
    by (simp add: get_tasks_cases)
  then show "\<exists>rs. get_tasks e db = respond 200 (Tasks rs) \<and> sorted_desc t_created_at rs \<and>
         mset rs = mset (filter (\<lambda>r. t_employee_id r = to_string e) (rows t))"
    using sorted_order_by_desc [of t_created_at
        "filter (\<lambda>r. t_employee_id r = to_string e) (rows t)"]
      mset_order_by_desc [of t_created_at
        "filter (\<lambda>r. t_employee_id r = to_string e) (rows t)"] by blast
qed simp_all

lemma tasks_example_tasks_db:
  "tasks example_tasks_db =
     Some \<lparr>columns = tasks_columns, rows = [example_task, example_task2], serial = 0\<rparr>"
  by (simp add: example_tasks_db_def)

text \<open>Instances on a table of two tasks, of the employees \<open>ATS0123\<close> and \<open>ATS0456\<close>: no
  filter, the malformed filter \<open>ATS01\<close>, and the filter \<open>ATS0456\<close>.\<close>

theorem get_tasks_lists_and_filters_witness:
  "(\<exists>rs. get_tasks JUndefined example_tasks_db = respond 200 (Tasks rs) \<and>
      sorted_desc t_created_at rs \<and> mset rs = mset [example_task, example_task2]) \<and>
   get_tasks (JStr ''ATS01'') example_tasks_db =
     respond 400 (Error ''Invalid employee ID format'') \<and>
   (\<exists>rs. get_tasks (JStr ''ATS0456'') example_tasks_db = respond 200 (Tasks rs) \<and>
      sorted_desc t_created_at rs \<and> mset rs = mset [example_task2])"
proof -
  define T where
    "T = \<lparr>columns = tasks_columns, rows = [example_task, example_task2], serial = 0\<rparr>"
  have t: "tasks example_tasks_db = Some T" by (simp add: tasks_example_tasks_db T_def)
  have r: "rows T = [example_task, example_task2]" by (simp add: T_def)
  have bad: "truthy (JStr ''ATS01'') \<and> \<not> regex_test emp_id_re (to_string (JStr ''ATS01''))"
    by code_simp
  have good: "truthy (JStr ''ATS0456'') \<and> regex_test emp_id_re (to_string (JStr ''ATS0456''))"
    by code_simp
  have f: "filter (\<lambda>r. t_employee_id r = to_string (JStr ''ATS0456'')) (rows T) = [example_task2]"
    by (simp add: r example_task_def example_task2_def)
  have a: "\<exists>rs. get_tasks JUndefined example_tasks_db = respond 200 (Tasks rs) \<and>
      sorted_desc t_created_at rs \<and> mset rs = mset (rows T)"
    using t get_tasks_lists_and_filters [of example_tasks_db T JUndefined] by simp
  have b: "get_tasks (JStr ''ATS01'') example_tasks_db =
     respond 400 (Error ''Invalid employee ID format'')"
    using bad get_tasks_lists_and_filters [of example_tasks_db T "JStr ''ATS01''"] by blast
  have c: "\<exists>rs. get_tasks (JStr ''ATS0456'') example_tasks_db = respond 200 (Tasks rs) \<and>
      sorted_desc t_created_at rs \<and>
      mset rs = mset (filter (\<lambda>r. t_employee_id r = to_string (JStr ''ATS0456'')) (rows T))"
    using t good get_tasks_lists_and_filters [of example_tasks_db T "JStr ''ATS0456''"]
    by blast
  from c have c': "\<exists>rs. get_tasks (JStr ''ATS0456'') example_tasks_db = respond 200 (Tasks rs) \<and>
      sorted_desc t_created_at rs \<and> mset rs = mset [example_task2]"
    by (simp only: f)
  from a have a': "\<exists>rs. get_tasks JUndefined example_tasks_db = respond 200 (Tasks rs) \<and>
      sorted_desc t_created_at rs \<and> mset rs = mset [example_task, example_task2]"
    by (simp only: r)
  from a' b c' show ?thesis by blast
qed

text \<open>C7 as stated fails on a supplied but empty filter: \<open>GET /api/tasks?employeeId=\<close>
  gives the handler the empty string, which does not match \<open>^ATS0\\d{3}$\<close>, and the answer
  is not 400 but 200 with every row, of both employees.\<close>

theorem get_tasks_empty_filter_counterexample:
  "\<not> regex_test emp_id_re [] \<and>
   get_tasks (JStr []) example_tasks_db = respond 200 (Tasks [example_task2, example_task]) \<and>
   t_employee_id example_task2 \<noteq> t_employee_id example_task"
  by code_simp


section \<open>Schema initialisation, repeated\<close>

lemma create_tables_initialized:
  "employees db \<noteq> None \<Longrightarrow> tasks db \<noteq> None \<Longrightarrow> task_history db \<noteq> None \<Longrightarrow>
   create_tables db = db"
  by (auto simp: create_tables_def create_table_if_not_exists_def)

lemma create_tables_exist:
  "employees (create_tables db) \<noteq> None \<and> tasks (create_tables db) \<noteq> None \<and>
   task_history (create_tables db) \<noteq> None"
  by (simp add: create_tables_def create_table_if_not_exists_def split: option.splits)

lemma create_tables_idem: "create_tables (create_tables db) = create_tables db"
  using create_tables_exist [of db] by (intro create_tables_initialized) simp_all

lemma init_loop_result:
  "snd (init_loop retries delay up attempt db) = Inr d \<Longrightarrow>
   d = create_tables db \<or> d = db"
proof (induction retries delay up attempt db rule: init_loop.induct)
  case (1 retries delay up attempt db)
  show ?case
  proof (cases "attempt \<le> retries")
    case False
    with "1.prems" show ?thesis by (simp add: init_loop.simps)
  next
    case True
    note le = True
    show ?thesis
    proof (cases "up attempt")
      case True
      with le "1.prems" show ?thesis by (simp add: init_loop.simps pool_query_def)
    next
      case False
      note down = False
      show ?thesis
      proof (cases "attempt < retries")
        case True
        have "snd (init_loop retries delay up (attempt + 1) db) = Inr d"
          using "1.prems" le down True
          by (subst (asm) init_loop.simps) (simp add: pool_query_def split: prod.splits)
        then show ?thesis
          using "1.IH" [of ConnectionFailed] le down True by (simp add: pool_query_def)
      next
        case False
        with le down "1.prems" show ?thesis by (simp add: init_loop.simps pool_query_def)
      qed
    qed
  qed
qed

lemma initializeDatabase_preserves_initialized:
  assumes "employees db \<noteq> None" "tasks db \<noteq> None" "task_history db \<noteq> None"
    and "initializeDatabase retries delay up db = (evs, Inr d)"
  shows "d = db"
proof -
  have "snd (init_loop retries delay up 1 db) = Inr d"
    using assms(4) by (simp add: initializeDatabase_def)
  then have "d = create_tables db \<or> d = db" by (rule init_loop_result)
  then show ?thesis using create_tables_initialized [OF assms(1-3)] by auto
qed

lemma initializeDatabase_up:
  "up 1 \<Longrightarrow> initializeDatabase 5 5000 up db = ([Attempt 1], Inr (create_tables db))"
  by (simp add: initializeDatabase_def init_loop.simps pool_query_def)

lemma create_tables_v2_result:
  "create_tables_v2 db =
     db\<lparr>tasks := Some \<lparr>columns = tasks_columns_v2, rows = [], serial = 0\<rparr>,
        task_history := Some \<lparr>columns = task_history_columns_v2, rows = [], serial = 0\<rparr>\<rparr>"
  by (simp add: create_tables_v2_def create_table_if_not_exists_def drop_table_if_exists_def)

text \<open>
  C4 (as amended). In the first server, initialising a store that already has its three
  tables raises no error while the store can be reached and changes nothing: the tables,
  their columns and every row of \<open>tasks\<close> and \<open>task_history\<close> are as before, whichever
  attempt succeeds; and the store a first initialisation leaves has the three tables. In the
  second server a repeated initialisation raises no error either and leaves \<open>tasks\<close> and
  \<open>task_history\<close> with the columns the first one gave them, but it drops both tables
  before creating them: their rows are gone and the id sequence starts again.
\<close>

theorem schema_initialization_repeated:
  "(employees db \<noteq> None \<and> tasks db \<noteq> None \<and> task_history db \<noteq> None \<and>
    initializeDatabase retries delay up db = (evs, Inr d) \<longrightarrow> d = db) \<and>
   (employees db \<noteq> None \<and> tasks db \<noteq> None \<and> task_history db \<noteq> None \<and> up 1 \<longrightarrow>
      initializeDatabase 5 5000 up db = ([Attempt 1], Inr db)) \<and>
   employees (create_tables db) \<noteq> None \<and> tasks (create_tables db) \<noteq> None \<and>
   task_history (create_tables db) \<noteq> None \<and>
   create_tables (create_tables db) = create_tables db \<and>
   initializeDatabase_v2 True db = Inr (create_tables_v2 db) \<and>
   create_tables_v2 db =
     db\<lparr>tasks := Some \<lparr>columns = tasks_columns_v2, rows = [], serial = 0\<rparr>,
        task_history := Some \<lparr>columns = task_history_columns_v2, rows = [], serial = 0\<rparr>\<rparr> \<and>
   create_tables_v2 (create_tables_v2 db) = create_tables_v2 db"
proof (intro conjI impI)
  assume "employees db \<noteq> None \<and> tasks db \<noteq> None \<and> task_history db \<noteq> None \<and>
    initializeDatabase retries delay up db = (evs, Inr d)"
  then show "d = db"
    using initializeDatabase_preserves_initialized [of db retries delay up evs d] by blast
next
  assume a: "employees db \<noteq> None \<and> tasks db \<noteq> None \<and> task_history db \<noteq> None \<and> up 1"
  then have "create_tables db = db" by (simp add: create_tables_initialized)
  with a show "initializeDatabase 5 5000 up db = ([Attempt 1], Inr db)"
    by (simp add: initializeDatabase_up)
next
  show "create_tables (create_tables db) = create_tables db" by (rule create_tables_idem)
  show "initializeDatabase_v2 True db = Inr (create_tables_v2 db)"
    by (simp add: initializeDatabase_v2_def pool_query_def)
  show "create_tables_v2 db =
     db\<lparr>tasks := Some \<lparr>columns = tasks_columns_v2, rows = [], serial = 0\<rparr>,
        task_history := Some \<lparr>columns = task_history_columns_v2, rows = [], serial = 0\<rparr>\<rparr>"
    by (rule create_tables_v2_result)
  show "create_tables_v2 (create_tables_v2 db) = create_tables_v2 db"
    by (simp add: create_tables_v2_result)
qed (simp_all add: create_tables_exist)

text \<open>An instance: the first server started again on a store that holds two tasks.\<close>

theorem schema_initialization_repeated_witness:
  "initializeDatabase 5 5000 (\<lambda>k. True) example_tasks_db = ([Attempt 1], Inr example_tasks_db) \<and>
   map_option rows (tasks example_tasks_db) = Some [example_task, example_task2]"
proof -
  have "employees example_tasks_db \<noteq> None \<and> tasks example_tasks_db \<noteq> None \<and>
      task_history example_tasks_db \<noteq> None"
    by (simp add: example_tasks_db_def create_tables_def empty_database_def
          create_table_if_not_exists_def)
  then have "initializeDatabase 5 5000 (\<lambda>k. True) example_tasks_db =
      ([Attempt 1], Inr example_tasks_db)"
    using schema_initialization_repeated [of example_tasks_db _ _ "\<lambda>k. True"] by blast
  then show ?thesis by (simp add: example_tasks_db_def)
qed

text \<open>C4 as stated fails for the second server: initialising again a store it has
  initialised, and that has received a task since, succeeds and keeps the columns, and the
  task is gone.\<close>

theorem schema_initialization_v2_drops_rows_counterexample:
  "map_option columns (tasks example_v2_db) = Some tasks_columns_v2 \<and>
   map_option rows (tasks example_v2_db) = Some [example_task\<lparr>t_email := []\<rparr>] \<and>
   (\<exists>d. initializeDatabase_v2 True example_v2_db = Inr d \<and>
        map_option columns (tasks d) = Some tasks_columns_v2 \<and>
        map_option rows (tasks d) = Some [])"
  by (simp add: example_v2_db_def initializeDatabase_v2_def pool_query_def
        create_tables_v2_result)


section \<open>Start-up: retries, then listening or exit\<close>

lemma failed_attempts_step:
  "a < k \<Longrightarrow> failed_attempts delay a k = Attempt a # Sleep delay # failed_attempts delay (Suc a) k"
  by (simp add: failed_attempts_def upt_conv_Cons)

lemma failed_attempts_none: "failed_attempts delay a a = []"
  by (simp add: failed_attempts_def)

lemma init_loop_succeeds:
  "a \<le> k \<Longrightarrow> k \<le> retries \<Longrightarrow> up k \<Longrightarrow> (\<forall>j. a \<le> j \<and> j < k \<longrightarrow> \<not> up j) \<Longrightarrow>
   init_loop retries delay up a db =
     (failed_attempts delay a k @ [Attempt k], Inr (create_tables db))"
proof (induction "k - a" arbitrary: a)
  case 0
  then have "a = k" by simp
  with 0 show ?case
    by (subst init_loop.simps) (simp add: pool_query_def failed_attempts_none)
next
  case (Suc n)
  then have lt: "a < k" and down: "\<not> up a" by auto
  have rec: "init_loop retries delay up (Suc a) db =
     (failed_attempts delay (Suc a) k @ [Attempt k], Inr (create_tables db))"
    using Suc.prems Suc.hyps(2) lt by (intro Suc.hyps(1)) auto
  show ?case
    using lt down Suc.prems(2) rec
    by (subst init_loop.simps) (simp add: pool_query_def failed_attempts_step)
qed

lemma init_loop_exhausts:
  "a \<le> retries \<Longrightarrow> (\<forall>j. a \<le> j \<and> j \<le> retries \<longrightarrow> \<not> up j) \<Longrightarrow>
   init_loop retries delay up a db =
     (failed_attempts delay a retries @ [Attempt retries], Inl Failed_to_connect)"
proof (induction "retries - a" arbitrary: a)
  case 0
  then have "a = retries" by simp
  with 0 show ?case
    by (subst init_loop.simps) (simp add: pool_query_def failed_attempts_none)
next
  case (Suc n)
  then have lt: "a < retries" and down: "\<not> up a" by auto
  have rec: "init_loop retries delay up (Suc a) db =
     (failed_attempts delay (Suc a) retries @ [Attempt retries], Inl Failed_to_connect)"
    using Suc.prems Suc.hyps(2) lt by (intro Suc.hyps(1)) auto
  show ?case
    using lt down rec
    by (subst init_loop.simps) (simp add: pool_query_def failed_attempts_step)
qed

lemma failed_attempts_5:
  "failed_attempts 5000 1 5 =
     [Attempt 1, Sleep 5000, Attempt 2, Sleep 5000, Attempt 3, Sleep 5000, Attempt 4,
      Sleep 5000]"
  by (simp add: failed_attempts_def upt_conv_Cons)

lemma Listen_notin_failed_attempts: "Listen \<notin> set (failed_attempts delay a k)"
  by (auto simp: failed_attempts_def)

lemma Exit_notin_failed_attempts: "Exit c \<notin> set (failed_attempts delay a k)"
  by (auto simp: failed_attempts_def)

lemma startServer_exhausts:
  assumes "\<forall>k. 1 \<le> k \<and> k \<le> 5 \<longrightarrow> \<not> up k"
  shows "startServer up db =
     ([Attempt 1, Sleep 5000, Attempt 2, Sleep 5000, Attempt 3, Sleep 5000, Attempt 4,
       Sleep 5000, Attempt 5, Exit 1], Exited 1)"
proof -
  have "init_loop 5 5000 up 1 db =
     (failed_attempts 5000 1 5 @ [Attempt 5], Inl Failed_to_connect)"
    using assms by (intro init_loop_exhausts) auto
  then have "init_loop 5 5000 up 1 db =
     ([Attempt 1, Sleep 5000, Attempt 2, Sleep 5000, Attempt 3, Sleep 5000, Attempt 4,
       Sleep 5000, Attempt 5], Inl Failed_to_connect)"
    by (simp only: failed_attempts_5 append.simps)
  then show ?thesis
    unfolding startServer_def initializeDatabase_def by simp
qed

lemma startServer_succeeds:
  assumes "1 \<le> k" "k \<le> 5" "up k" "\<forall>j. 1 \<le> j \<and> j < k \<longrightarrow> \<not> up j"
  shows "startServer up db =
     (failed_attempts 5000 1 k @ [Attempt k, Listen], Listening (create_tables db))"
proof -
  have "init_loop 5 5000 up 1 db =
     (failed_attempts 5000 1 k @ [Attempt k], Inr (create_tables db))"
    using assms by (intro init_loop_succeeds) auto
  then show ?thesis by (simp add: startServer_def initializeDatabase_def)
qed

lemma first_success:
  assumes "\<exists>k. 1 \<le> k \<and> k \<le> (5::nat) \<and> up k"
  shows "\<exists>k. 1 \<le> k \<and> k \<le> 5 \<and> up k \<and> (\<forall>j. 1 \<le> j \<and> j < k \<longrightarrow> \<not> up j)"
proof -
  define k where "k = (LEAST k. 1 \<le> k \<and> k \<le> 5 \<and> up k)"
  have "1 \<le> k \<and> k \<le> 5 \<and> up k" unfolding k_def using assms by (rule LeastI_ex)
  moreover have "\<not> up j" if "1 \<le> j \<and> j < k" for j
  proof
    assume "up j"
    with that \<open>1 \<le> k \<and> k \<le> 5 \<and> up k\<close> have "1 \<le> j \<and> j \<le> 5 \<and> up j" by simp
    then have "k \<le> j" unfolding k_def by (rule Least_le)
    with that show False by simp
  qed
  ultimately show ?thesis by blast
qed

lemma startServer_listens_iff:
  "Listen \<in> set (fst (startServer up db)) \<longleftrightarrow> (\<exists>k. 1 \<le> k \<and> k \<le> 5 \<and> up k)"
proof (cases "\<exists>k. 1 \<le> k \<and> k \<le> 5 \<and> up k")
  case True
  then obtain k where "1 \<le> k" "k \<le> 5" "up k" "\<forall>j. 1 \<le> j \<and> j < k \<longrightarrow> \<not> up j"
    using first_success [of up] by blast
  then have "startServer up db =
     (failed_attempts 5000 1 k @ [Attempt k, Listen], Listening (create_tables db))"
    by (rule startServer_succeeds)
  with True show ?thesis by simp
next
  case False
  then have "\<forall>k. 1 \<le> k \<and> k \<le> 5 \<longrightarrow> \<not> up k" by blast
  then have "startServer up db =
     ([Attempt 1, Sleep 5000, Attempt 2, Sleep 5000, Attempt 3, Sleep 5000, Attempt 4,
       Sleep 5000, Attempt 5, Exit 1], Exited 1)"
    by (rule startServer_exhausts)
  with False show ?thesis by simp
qed

text \<open>
  C5. At start-up the schema query is attempted at most five times. After a failed attempt
  other than the fifth the process pauses 5000 ms and tries again. When all five fail, it
  calls \<open>process.exit(1)\<close> and never \<open>app.listen\<close>: the events are five attempts with four
  pauses between them, then the exit with status 1. When attempt \<open>k\<close> is the first to
  succeed, the events are the \<open>k - 1\<close> failed attempts with their pauses, attempt \<open>k\<close>, and
  only then \<open>app.listen\<close>, on the initialised store. So the process listens exactly when one
  of the five attempts succeeds, and \<open>app.listen\<close> is the last event, after that attempt.
\<close>

theorem startup_retries_then_listens_or_exits:
  "((\<forall>k. 1 \<le> k \<and> k \<le> 5 \<longrightarrow> \<not> up k) \<longrightarrow>
      startServer up db =
        ([Attempt 1, Sleep 5000, Attempt 2, Sleep 5000, Attempt 3, Sleep 5000, Attempt 4,
          Sleep 5000, Attempt 5, Exit 1], Exited 1)) \<and>
   (1 \<le> k \<and> k \<le> 5 \<and> up k \<and> (\<forall>j. 1 \<le> j \<and> j < k \<longrightarrow> \<not> up j) \<longrightarrow>
      startServer up db =
        (concat (map (\<lambda>j. [Attempt j, Sleep 5000]) [1..<k]) @ [Attempt k, Listen],
         Listening (create_tables db))) \<and>
   (Listen \<in> set (fst (startServer up db)) \<longleftrightarrow> (\<exists>k. 1 \<le> k \<and> k \<le> 5 \<and> up k)) \<and>
   Listen \<notin> set (concat (map (\<lambda>j. [Attempt j, Sleep 5000]) [1..<k]) @ [Attempt k])"
proof (intro conjI impI)
  assume "\<forall>k. 1 \<le> k \<and> k \<le> 5 \<longrightarrow> \<not> up k"
  then show "startServer up db =
        ([Attempt 1, Sleep 5000, Attempt 2, Sleep 5000, Attempt 3, Sleep 5000, Attempt 4,
          Sleep 5000, Attempt 5, Exit 1], Exited 1)"
    by (rule startServer_exhausts)
next
  assume "1 \<le> k \<and> k \<le> 5 \<and> up k \<and> (\<forall>j. 1 \<le> j \<and> j < k \<longrightarrow> \<not> up j)"
  then show "startServer up db =
        (concat (map (\<lambda>j. [Attempt j, Sleep 5000]) [1..<k]) @ [Attempt k, Listen],
         Listening (create_tables db))"
    using startServer_succeeds [of k up db] unfolding failed_attempts_def by blast
next
  show "Listen \<in> set (fst (startServer up db)) \<longleftrightarrow> (\<exists>k. 1 \<le> k \<and> k \<le> 5 \<and> up k)"
    by (rule startServer_listens_iff)
  show "Listen \<notin> set (concat (map (\<lambda>j. [Attempt j, Sleep 5000]) [1..<k]) @ [Attempt k])"
    by auto
qed

text \<open>Instances: a store that is never reachable, and one that is reachable from the
  third attempt on.\<close>

theorem startup_retries_then_listens_or_exits_witness:
  "startServer (\<lambda>k. False) empty_database =
     ([Attempt 1, Sleep 5000, Attempt 2, Sleep 5000, Attempt 3, Sleep 5000, Attempt 4,
       Sleep 5000, Attempt 5, Exit 1], Exited 1) \<and>
   startServer (\<lambda>k. 3 \<le> k) empty_database =
     ([Attempt 1, Sleep 5000, Attempt 2, Sleep 5000, Attempt 3, Listen],
      Listening (create_tables empty_database)) \<and>
   Listen \<in> set (fst (startServer (\<lambda>k. 3 \<le> k) empty_database)) \<and>
   Listen \<notin> set (fst (startServer (\<lambda>k. False) empty_database))"
proof -
  have a: "startServer (\<lambda>k. False) empty_database =
     ([Attempt 1, Sleep 5000, Attempt 2, Sleep 5000, Attempt 3, Sleep 5000, Attempt 4,
       Sleep 5000, Attempt 5, Exit 1], Exited 1)"
    using startup_retries_then_listens_or_exits [of "\<lambda>k. False" empty_database] by simp
  have "(1::nat) \<le> 3 \<and> (3::nat) \<le> 5 \<and> (3::nat) \<le> 3 \<and> (\<forall>j. 1 \<le> j \<and> j < 3 \<longrightarrow> \<not> 3 \<le> (j::nat))"
    by simp
  then have "startServer (\<lambda>k. 3 \<le> k) empty_database =
        (concat (map (\<lambda>j. [Attempt j, Sleep 5000]) [1..<3]) @ [Attempt 3, Listen],
         Listening (create_tables empty_database))"
    using startup_retries_then_listens_or_exits [of "\<lambda>k. 3 \<le> k" empty_database 3] by blast
  moreover have "concat (map (\<lambda>j. [Attempt j, Sleep 5000]) [1..<3]) =
      [Attempt 1, Sleep 5000, Attempt 2, Sleep 5000]"
    by (simp add: upt_conv_Cons)
  ultimately have b: "startServer (\<lambda>k. 3 \<le> k) empty_database =
     ([Attempt 1, Sleep 5000, Attempt 2, Sleep 5000, Attempt 3, Listen],
      Listening (create_tables empty_database))"
    by (simp only: append.simps)
  from a b show ?thesis by simp
qed

end
